theory Spec2Isabelle
  imports Main
begin

section \<open>Python values, exceptions and the transport's answers\<close>

text \<open>
  The values that travel between the program and the remote service are decoded JSON:
  \<open>None\<close>, integers, strings, lists and dictionaries with string keys. JSON booleans and
  floating point numbers do not occur in the fields this program reads and are left out.
  A dictionary is an association list; the first binding of a key is the one looked up.
\<close>

datatype pyval =
    PNone
  | PInt int
  | PStr string
  | PList "pyval list"
  | PDict "(string \<times> pyval) list"

text \<open>The exceptions the modelled code can raise; \<open>exit(1)\<close> raises \<open>SystemExit 1\<close>.\<close>

datatype py_error =
    KeyError
  | TypeError
  | IndexError
  | ValueError
  | AttributeError
  | KeyboardInterrupt
  | SystemExit int

definition bindE :: "'e + 'a \<Rightarrow> ('a \<Rightarrow> 'e + 'b) \<Rightarrow> 'e + 'b" where
  "bindE m f = (case m of Inl e \<Rightarrow> Inl e | Inr x \<Rightarrow> f x)"

text \<open>A list comprehension whose element expression may raise: the first exception wins.\<close>

fun mapE :: "('a \<Rightarrow> 'e + 'b) \<Rightarrow> 'a list \<Rightarrow> 'e + 'b list" where
  "mapE f [] = Inr []"
| "mapE f (x # xs) =
     (case f x of
        Inl e \<Rightarrow> Inl e
      | Inr y \<Rightarrow> (case mapE f xs of Inl e \<Rightarrow> Inl e | Inr ys \<Rightarrow> Inr (y # ys)))"

text \<open>A list comprehension with an \<open>if\<close> clause whose condition may raise.\<close>

fun filterE :: "('a \<Rightarrow> 'e + bool) \<Rightarrow> 'a list \<Rightarrow> 'e + 'a list" where
  "filterE c [] = Inr []"
| "filterE c (x # xs) =
     (case c x of
        Inl e \<Rightarrow> Inl e
      | Inr b \<Rightarrow>
          (case filterE c xs of
             Inl e \<Rightarrow> Inl e
           | Inr ys \<Rightarrow> Inr (if b then x # ys else ys)))"

text \<open>\<open>v[key]\<close> with a string key: only a dictionary can be subscripted by a string.\<close>

fun getitem :: "pyval \<Rightarrow> string \<Rightarrow> py_error + pyval" where
  "getitem (PDict kvs) key = (case map_of kvs key of None \<Rightarrow> Inl KeyError | Some v \<Rightarrow> Inr v)"
| "getitem _ key = Inl TypeError"

text \<open>\<open>v.get(key)\<close>: a method of dictionaries only; a missing key gives \<open>None\<close>.\<close>

fun get_method :: "pyval \<Rightarrow> string \<Rightarrow> py_error + pyval" where
  "get_method (PDict kvs) key = (case map_of kvs key of None \<Rightarrow> Inr PNone | Some v \<Rightarrow> Inr v)"
| "get_method _ key = Inl AttributeError"

text \<open>\<open>for x in v\<close>: a list gives its items, a dictionary its keys, a string its characters.\<close>

fun py_iter :: "pyval \<Rightarrow> py_error + pyval list" where
  "py_iter (PList xs) = Inr xs"
| "py_iter (PDict kvs) = Inr (map (\<lambda>kv. PStr (fst kv)) kvs)"
| "py_iter (PStr s) = Inr (map (\<lambda>c. PStr [c]) s)"
| "py_iter _ = Inl TypeError"

text \<open>\<open>len(v)\<close>.\<close>

fun py_len :: "pyval \<Rightarrow> py_error + int" where
  "py_len (PList xs) = Inr (int (length xs))"
| "py_len (PDict kvs) = Inr (int (length kvs))"
| "py_len (PStr s) = Inr (int (length s))"
| "py_len _ = Inl TypeError"

text \<open>
  \<open>int(v)\<close>. An integer is returned as it is. A string is read in base ten: blanks around
  it are ignored, a sign may come first, and single underscores may stand between digits;
  any other string is a \<open>ValueError\<close>. The blanks are the six ASCII ones (tab, line feed,
  vertical tab, form feed, carriage return, space). Characters are bytes here: a digit or
  a blank outside ASCII, which \<open>int\<close> would accept, is not recognised.
\<close>

definition digit_val :: "char \<Rightarrow> nat option" where
  "digit_val c =
     (let n = of_char c :: nat in if 48 \<le> n \<and> n \<le> 57 then Some (n - 48) else None)"

fun digits_val :: "nat \<Rightarrow> string \<Rightarrow> nat option" where
  "digits_val acc [] = Some acc"
| "digits_val acc (c # cs) =
     (if c = CHR ''_'' then
        (case cs of
           [] \<Rightarrow> None
         | d # _ \<Rightarrow> if digit_val d = None then None else digits_val acc cs)
      else
        (case digit_val c of None \<Rightarrow> None | Some d \<Rightarrow> digits_val (10 * acc + d) cs))"

definition is_blank :: "char \<Rightarrow> bool" where
  "is_blank c = (of_char c \<in> {9, 10, 11, 12, 13, 32 :: nat})"

definition strip :: "string \<Rightarrow> string" where
  "strip s = rev (dropWhile is_blank (rev (dropWhile is_blank s)))"

definition int_of_str :: "string \<Rightarrow> py_error + int" where
  "int_of_str s =
     (let t = strip s;
          neg = (t \<noteq> [] \<and> hd t = CHR ''-'');
          ds = (if t \<noteq> [] \<and> (hd t = CHR ''-'' \<or> hd t = CHR ''+'') then tl t else t)
      in if ds = [] \<or> hd ds = CHR ''_'' then Inl ValueError
         else (case digits_val 0 ds of
                 None \<Rightarrow> Inl ValueError
               | Some n \<Rightarrow> Inr (if neg then - int n else int n)))"

fun py_int :: "pyval \<Rightarrow> py_error + int" where
  "py_int (PInt i) = Inr i"
| "py_int (PStr s) = int_of_str s"
| "py_int _ = Inl TypeError"

text \<open>What \<open>set(...)\<close> accepts as an element: lists and dictionaries are unhashable.\<close>

fun hashable :: "pyval \<Rightarrow> bool" where
  "hashable (PList xs) = False"
| "hashable (PDict kvs) = False"
| "hashable _ = True"

text \<open>An optional integer field of the local tree (\<open>suite_id\<close>, \<open>section_id\<close>, \<open>case_id\<close>) as a value.\<close>

fun of_optional :: "int option \<Rightarrow> pyval" where
  "of_optional None = PNone"
| "of_optional (Some i) = PInt i"

text \<open>Truth value of an optional integer: \<open>None\<close> and \<open>0\<close> are false.\<close>

fun truthy :: "int option \<Rightarrow> bool" where
  "truthy None = False"
| "truthy (Some i) = (i \<noteq> 0)"

text \<open>
  \<open>APIClientResult\<close>, as far as the code reads it: the decoded body and the error string,
  which is empty exactly when the request succeeded.
\<close>

record response =
  response_text :: pyval
  error_message :: string

text \<open>
  A request is the method, the path and, for a POST, the body. The path is kept as the
  template of the f-string and the values formatted into it.
\<close>

type_synonym path = "string \<times> pyval list"

datatype request = GET path | POST path pyval

text \<open>
  Text shown to the user: a finished string, or a template of \<open>FAULT_MAPPING\<close> or
  \<open>PROMPT_MESSAGES\<close> with the keyword arguments given to \<open>format\<close>.
\<close>

datatype message = Text string | Format string "(string \<times> pyval) list"

type_synonym resource = "(string \<times> pyval) list"

text \<open>The keyword under which \<open>update_data\<close> receives created resources.\<close>

datatype update =
    suite_data "resource list"
  | section_data "resource list"
  | case_data "resource list"

text \<open>Everything the program does to its collaborators, in the order it happens.\<close>

datatype event =
    Log message
  | Prompt message
  | Sent request
  | Submitted "request list"
  | UpdateData update
  | ProgressOpen int string
  | ProgressUpdate int
  | ProgressPostfix string

text \<open>
  A future of the thread pool, in the state the scheduler has brought it to when the
  draining loop stops waiting: still queued, taken by a worker, or finished. \<open>result\<close> is the
  answer of the transport to the unit's request, \<open>arguments\<close> the body stored beside the
  future.
\<close>

datatype fstate = Queued | Running | Finished | Cancelled

record future =
  arguments :: pyval
  result :: response
  state :: fstate

section \<open>The collaborators\<close>

text \<open>
  The transport, the prompter, the thread pool, the constants and the data provider are
  code that this development does not define; the program is verified for every choice of
  them. They are the fields of a \<open>setting\<close>:
  \<^item> \<open>send\<close> is \<open>APIClient.send_get\<close>/\<open>send_post\<close>: one request against the state \<open>'r\<close> of
    the outside world, giving the answer and the next state;
  \<^item> \<open>get_prompt_response_for_auto_creation\<close> is the user's answer to a question;
  \<^item> \<open>executor\<close> is \<open>ThreadPoolExecutor\<close> together with the scheduler: for the submitted
    requests it gives the futures in the order \<open>as_completed\<close> yields them, and after how
    many drained completions a \<open>KeyboardInterrupt\<close> reaches the main thread (if one does);
  \<^item> \<open>finished_order\<close> ranks the futures of a batch that has come to rest: \<open>as_completed\<close>
    hands out futures that are all done in the order of a set, which differs from run to
    run, and the model takes them by ascending rank;
  \<^item> the members of \<open>ProjectErrors\<close> and \<open>SuiteModes\<close>, \<open>FAULT_MAPPING\<close> and
    \<open>PROMPT_MESSAGES\<close>;
  \<^item> the fields of \<open>Environment\<close> that are read: \<open>project\<close>, \<open>run_id\<close>, \<open>title\<close>,
    \<open>batch_size\<close>;
  \<^item> what \<open>ApiDataProvider\<close> computes from its tree \<open>'p\<close>: the suite's id and name, the
    section and case ids, the request bodies, and \<open>update_data\<close>.
\<close>

record ('r, 'p) setting =
  send :: "request \<Rightarrow> 'r \<Rightarrow> response \<times> 'r"
  get_prompt_response_for_auto_creation :: "message \<Rightarrow> 'r \<Rightarrow> bool \<times> 'r"
  executor :: "request list \<Rightarrow> 'r \<Rightarrow> (future list \<times> nat option) \<times> 'r"
  finished_order :: "future \<Rightarrow> nat"
  multiple_project_same_name :: int
  not_existing_project :: int
  other_error :: int
  single_suite :: int
  single_suite_baselines :: int
  multiple_suites :: int
  FAULT_MAPPING :: "string \<Rightarrow> string"
  PROMPT_MESSAGES :: "string \<Rightarrow> string"
  project :: string
  environment_run_id :: "int option"
  title :: string
  batch_size :: int
  provider_suite_id :: "'p \<Rightarrow> int option"
  suite_name :: "'p \<Rightarrow> string"
  testsections :: "'p \<Rightarrow> int option list"
  testcases :: "'p \<Rightarrow> int option list"
  add_suites_data :: "'p \<Rightarrow> pyval list"
  add_sections_data :: "'p \<Rightarrow> pyval list"
  add_cases_data :: "'p \<Rightarrow> pyval list"
  add_run_data :: "string \<Rightarrow> 'p \<Rightarrow> pyval"
  add_results_for_cases :: "int \<Rightarrow> 'p \<Rightarrow> pyval list"
  update_data :: "update \<Rightarrow> 'p \<Rightarrow> 'p"

text \<open>
  The state the program runs in: the outside world, the data provider's tree, and the
  trace of what has been done so far.
\<close>

record ('r, 'p) world =
  remote :: 'r
  data_provider :: 'p
  trace :: "event list"

type_synonym ('r, 'p, 'a) action = "('r, 'p) world \<Rightarrow> (py_error + 'a) \<times> ('r, 'p) world"

definition emit :: "event \<Rightarrow> ('r, 'p) world \<Rightarrow> ('r, 'p) world" where
  "emit e w = w\<lparr>trace := trace w @ [e]\<rparr>"

definition log :: "message \<Rightarrow> ('r, 'p) world \<Rightarrow> ('r, 'p) world" where
  "log m w = emit (Log m) w"

definition send_request ::
  "('r, 'p) setting \<Rightarrow> request \<Rightarrow> ('r, 'p) world \<Rightarrow> response \<times> ('r, 'p) world" where
  "send_request S req w =
     (case send S req (remote w) of
        (resp, r') \<Rightarrow> (resp, emit (Sent req) (w\<lparr>remote := r'\<rparr>)))"

definition send_get ::
  "('r, 'p) setting \<Rightarrow> path \<Rightarrow> ('r, 'p) world \<Rightarrow> response \<times> ('r, 'p) world" where
  "send_get S p w = send_request S (GET p) w"

definition send_post ::
  "('r, 'p) setting \<Rightarrow> path \<Rightarrow> pyval \<Rightarrow> ('r, 'p) world \<Rightarrow> response \<times> ('r, 'p) world" where
  "send_post S p body w = send_request S (POST p body) w"

definition prompt_user ::
  "('r, 'p) setting \<Rightarrow> message \<Rightarrow> ('r, 'p) world \<Rightarrow> bool \<times> ('r, 'p) world" where
  "prompt_user S m w =
     (case get_prompt_response_for_auto_creation S m (remote w) of
        (answer, r') \<Rightarrow> (answer, emit (Prompt m) (w\<lparr>remote := r'\<rparr>)))"

text \<open>
  \<open>self.data_provider.update_data(...) if len(returned_resources) > 0 else "Update skipped"\<close>.
\<close>

definition update_if_any ::
  "('r, 'p) setting \<Rightarrow> (resource list \<Rightarrow> update) \<Rightarrow> resource list \<Rightarrow> ('r, 'p) world
     \<Rightarrow> ('r, 'p) world" where
  "update_if_any S keyword returned_resources w =
     (if length returned_resources > 0
      then emit (UpdateData (keyword returned_resources))
             (w\<lparr>data_provider := update_data S (keyword returned_resources) (data_provider w)\<rparr>)
      else w)"

section \<open>ApiRequestHandler\<close>

record ProjectData =
  data_project_id :: int
  data_suite_mode :: int
  data_error_message :: string

text \<open>
  The comprehension of \<open>get_project_id\<close>: the projects of the answer whose name equals the
  requested one.
\<close>

definition available_projects :: "pyval \<Rightarrow> string \<Rightarrow> py_error + pyval list" where
  "available_projects text project_name =
     bindE (getitem text ''projects'') (\<lambda>projects.
     bindE (py_iter projects)
       (filterE (\<lambda>project.
          bindE (getitem project ''name'') (\<lambda>n. Inr (n = PStr project_name)))))"

definition get_project_id ::
  "('r, 'p) setting \<Rightarrow> string \<Rightarrow> ('r, 'p, ProjectData) action" where
  "get_project_id S project_name w =
     (case send_get S (''get_projects'', []) w of
        (response, w1) \<Rightarrow>
          if error_message response = '''' then
            (case available_projects (response_text response) project_name of
               Inl e \<Rightarrow> (Inl e, w1)
             | Inr available \<Rightarrow>
                 if length available = 1 then
                   (case bindE (getitem (hd available) ''id'') py_int of
                      Inl e \<Rightarrow> (Inl e, w1)
                    | Inr pid \<Rightarrow>
                        (case bindE (getitem (hd available) ''suite_mode'') py_int of
                           Inl e \<Rightarrow> (Inl e, w1)
                         | Inr mode \<Rightarrow>
                             (Inr \<lparr>data_project_id = pid, data_suite_mode = mode,
                                   data_error_message = error_message response\<rparr>, w1)))
                 else if length available > 1 then
                   (Inr \<lparr>data_project_id = multiple_project_same_name S, data_suite_mode = - 1,
                         data_error_message = FAULT_MAPPING S ''more_than_one_project''\<rparr>, w1)
                 else
                   (Inr \<lparr>data_project_id = not_existing_project S, data_suite_mode = - 1,
                         data_error_message =
                           project_name @ '' '' @ FAULT_MAPPING S ''project_doesnt_exists''\<rparr>, w1))
          else
            (Inr \<lparr>data_project_id = other_error S, data_suite_mode = - 1,
                  data_error_message = error_message response\<rparr>, w1))"

text \<open>
  \<open>check_suite_id\<close> returns a pair: \<open>(True, "")\<close>, \<open>(False, "")\<close> or \<open>(None, error)\<close>.
\<close>

definition check_suite_id ::
  "('r, 'p) setting \<Rightarrow> int \<Rightarrow> ('r, 'p, bool option \<times> string) action" where
  "check_suite_id S project_id w =
     (let suite_id = provider_suite_id S (data_provider w) in
      case send_get S (''get_suites/{}'', [PInt project_id]) w of
        (response, w1) \<Rightarrow>
          if error_message response = '''' then
            (case bindE (py_iter (response_text response))
                    (mapE (\<lambda>suite. getitem suite ''id'')) of
               Inl e \<Rightarrow> (Inl e, w1)
             | Inr available_suites \<Rightarrow>
                 (Inr (if of_optional suite_id \<in> set available_suites
                       then (Some True, '''') else (Some False, '''')), w1))
          else (Inr (None, error_message response), w1))"

definition suite_entry :: "pyval \<Rightarrow> py_error + pyval \<times> resource" where
  "suite_entry suite =
     bindE (getitem suite ''id'') (\<lambda>i.
     bindE (getitem suite ''id'') (\<lambda>i'.
     bindE (getitem suite ''name'') (\<lambda>n.
       Inr (i, [(''suite_id'', i'), (''name'', n)]))))"

definition get_suite_ids ::
  "('r, 'p) setting \<Rightarrow> int \<Rightarrow> ('r, 'p, pyval list \<times> string) action" where
  "get_suite_ids S project_id w =
     (case send_get S (''get_suites/{}'', [PInt project_id]) w of
        (response, w1) \<Rightarrow>
          if error_message response = '''' then
            (case bindE (py_iter (response_text response)) (mapE suite_entry) of
               Inl e \<Rightarrow> (Inl e, w1)
             | Inr entries \<Rightarrow>
                 (Inr (map fst entries, ''''), update_if_any S suite_data (map snd entries) w1))
          else (Inr ([], error_message response), update_if_any S suite_data [] w1))"

text \<open>
  The loop of \<open>add_suites\<close> and of \<open>add_sections\<close>: post the bodies in order, collect the
  answers without an error message, and leave the loop at the first answer with one.
\<close>

fun post_bodies ::
  "('r, 'p) setting \<Rightarrow> path \<Rightarrow> pyval list \<Rightarrow> ('r, 'p) world
     \<Rightarrow> (response list \<times> string) \<times> ('r, 'p) world" where
  "post_bodies S p [] w = (([], ''''), w)"
| "post_bodies S p (body # bodies) w =
     (case send_post S p body w of
        (response, w1) \<Rightarrow>
          if error_message response = '''' then
            (case post_bodies S p bodies w1 of
               ((responses, err), w2) \<Rightarrow> ((response # responses, err), w2))
          else (([], error_message response), w1))"

definition suite_resource :: "response \<Rightarrow> py_error + resource" where
  "suite_resource response =
     bindE (getitem (response_text response) ''id'') (\<lambda>i.
     bindE (getitem (response_text response) ''name'') (\<lambda>n.
       Inr [(''suite_id'', i), (''name'', n)]))"

definition add_suites ::
  "('r, 'p) setting \<Rightarrow> int \<Rightarrow> ('r, 'p, resource list \<times> string) action" where
  "add_suites S project_id w =
     (case post_bodies S (''add_suite/{}'', [PInt project_id])
             (add_suites_data S (data_provider w)) w of
        ((responses, err), w1) \<Rightarrow>
          (case mapE suite_resource responses of
             Inl e \<Rightarrow> (Inl e, w1)
           | Inr returned_resources \<Rightarrow>
               (Inr (returned_resources, err), update_if_any S suite_data returned_resources w1)))"

text \<open>
  \<open>list(set(local) - set([item.get("id") for item in text[key]]))\<close>. The order of the
  resulting list is the set's; here it is the order of first occurrence among the local ids.
\<close>

definition missing_ids :: "int option list \<Rightarrow> pyval \<Rightarrow> string \<Rightarrow> py_error + pyval list" where
  "missing_ids local text key =
     bindE (getitem text key) (\<lambda>items.
     bindE (py_iter items) (\<lambda>items.
     bindE (mapE (\<lambda>item. get_method item ''id'') items) (\<lambda>ids.
       if list_all hashable ids
       then Inr (remdups (filter (\<lambda>i. i \<notin> set ids) (map of_optional local)))
       else Inl TypeError)))"

definition check_missing_section_ids ::
  "('r, 'p) setting \<Rightarrow> int \<Rightarrow> ('r, 'p, pyval list \<times> string) action" where
  "check_missing_section_ids S project_id w =
     (let suite_id = provider_suite_id S (data_provider w);
          sections = testsections S (data_provider w) in
      case send_get S (''get_sections/{}&suite_id={}'', [PInt project_id, of_optional suite_id]) w of
        (response, w1) \<Rightarrow>
          if error_message response = '''' then
            (case missing_ids sections (response_text response) ''sections'' of
               Inl e \<Rightarrow> (Inl e, w1)
             | Inr missing \<Rightarrow> (Inr (missing, error_message response), w1))
          else (Inr ([], error_message response), w1))"

definition section_resource :: "response \<Rightarrow> py_error + resource" where
  "section_resource response =
     bindE (getitem (response_text response) ''id'') (\<lambda>i.
     bindE (getitem (response_text response) ''suite_id'') (\<lambda>s.
     bindE (getitem (response_text response) ''name'') (\<lambda>n.
       Inr [(''section_id'', i), (''suite_id'', s), (''name'', n)])))"

definition add_sections ::
  "('r, 'p) setting \<Rightarrow> int \<Rightarrow> ('r, 'p, resource list \<times> string) action" where
  "add_sections S project_id w =
     (case post_bodies S (''add_section/{}'', [PInt project_id])
             (add_sections_data S (data_provider w)) w of
        ((responses, err), w1) \<Rightarrow>
          (case mapE section_resource responses of
             Inl e \<Rightarrow> (Inl e, w1)
           | Inr returned_resources \<Rightarrow>
               (Inr (returned_resources, err),
                update_if_any S section_data returned_resources w1)))"

definition check_missing_test_cases_ids ::
  "('r, 'p) setting \<Rightarrow> int \<Rightarrow> ('r, 'p, pyval list \<times> string) action" where
  "check_missing_test_cases_ids S project_id w =
     (let suite_id = provider_suite_id S (data_provider w);
          test_cases = testcases S (data_provider w) in
      case send_get S (''get_cases/{}&suite_id={}'', [PInt project_id, of_optional suite_id]) w of
        (response, w1) \<Rightarrow>
          if error_message response = '''' then
            (case missing_ids test_cases (response_text response) ''cases'' of
               Inl e \<Rightarrow> (Inl e, w1)
             | Inr missing \<Rightarrow> (Inr (missing, error_message response), w1))
          else (Inr ([], error_message response), w1))"

subsection \<open>Draining a batch of futures\<close>

text \<open>
  \<open>future.cancel()\<close>: a future still in the queue becomes cancelled; one that a worker has
  taken, or that has finished, is left as it is.
\<close>

definition cancel :: "future \<Rightarrow> future" where
  "cancel f = (if state f = Queued then f\<lparr>state := Cancelled\<rparr> else f)"

definition ApiRequestHandler_cancel_running_futures ::
  "string \<Rightarrow> future list \<Rightarrow> ('r, 'p) world \<Rightarrow> future list \<times> ('r, 'p) world" where
  "ApiRequestHandler_cancel_running_futures action_string futures w =
     (map cancel futures,
      log (Text ([CHR 0x0A] @ ''Aborting: '' @ action_string
                   @ ''. Trying to cancel scheduled tasks.'')) w)"

text \<open>
  The body of \<open>handle_futures\<close>. \<open>pending\<close> are the futures \<open>as_completed\<close> has not yielded
  yet, in the order it will yield them, \<open>yielded\<close> the ones it has; a yielded future has
  finished. \<open>interrupt = Some k\<close> says that a \<open>KeyboardInterrupt\<close> arrives after \<open>k\<close> more
  completions. The result carries the futures as the loop leaves them.
\<close>

fun drain ::
  "string \<Rightarrow> nat option \<Rightarrow> future list \<Rightarrow> future list \<Rightarrow> response list \<Rightarrow> ('r, 'p) world
     \<Rightarrow> ((py_error + response list \<times> string) \<times> future list) \<times> ('r, 'p) world" where
  "drain action_string interrupt yielded [] responses w =
     ((Inr (responses, ''''), yielded), emit (ProgressPostfix ''Done.'') w)"
| "drain action_string interrupt yielded (f # pending) responses w =
     (if interrupt = Some 0 then
        (case ApiRequestHandler_cancel_running_futures action_string (yielded @ f # pending) w of
           (futures, w1) \<Rightarrow> ((Inl KeyboardInterrupt, futures), w1))
      else
        (let f' = f\<lparr>state := Finished\<rparr>;
             response = result f;
             later = map_option (\<lambda>k. k - 1) interrupt
         in if error_message response = '''' then
              (if action_string = ''add_results'' then
                 (case bindE (getitem (arguments f) ''results'') py_len of
                    Inl e \<Rightarrow> ((Inl e, yielded @ f' # pending), w)
                  | Inr n \<Rightarrow>
                      drain action_string later (yielded @ [f']) pending
                        (responses @ [response]) (emit (ProgressUpdate n) w))
               else
                 drain action_string later (yielded @ [f']) pending
                   (responses @ [response]) (emit (ProgressUpdate 1) w))
            else
              (case ApiRequestHandler_cancel_running_futures action_string
                      (yielded @ f' # pending)
                      (log (Text ([CHR 0x0A] @ ''Error during '' @ action_string
                                    @ ''. Trying to cancel scheduled tasks.'')) w) of
                 (futures, w1) \<Rightarrow> ((Inr (responses, error_message response), futures), w1))))"

definition handle_futures ::
  "future list \<Rightarrow> nat option \<Rightarrow> string \<Rightarrow> ('r, 'p) world
     \<Rightarrow> ((py_error + response list \<times> string) \<times> future list) \<times> ('r, 'p) world" where
  "handle_futures futures interrupt action_string w =
     drain action_string interrupt [] futures [] w"

text \<open>
  Leaving \<open>with ThreadPoolExecutor(...)\<close> waits for every future that was not cancelled.
\<close>

definition shutdown :: "future list \<Rightarrow> future list" where
  "shutdown futures =
     map (\<lambda>f. if state f = Cancelled then f else f\<lparr>state := Finished\<rparr>) futures"

text \<open>
  \<open>retrieve_results_after_cancelling\<close> runs when every future is finished or cancelled.
  \<open>as_completed\<close> then yields all of them, in an order that does not depend on the order of
  the first pass: here, sorted by \<open>finished_order\<close>.
\<close>

definition retrieve_results_after_cancelling ::
  "('r, 'p) setting \<Rightarrow> future list \<Rightarrow> response list" where
  "retrieve_results_after_cancelling S futures =
     map result
       (filter (\<lambda>future. state future \<noteq> Cancelled) (sort_key (finished_order S) futures))"

subsection \<open>Batches: cases and results\<close>

text \<open>\<open>body.pop(key)\<close>: the value and the dictionary without the key.\<close>

fun pop :: "pyval \<Rightarrow> string \<Rightarrow> py_error + pyval \<times> pyval" where
  "pop (PDict kvs) key =
     (case map_of kvs key of
        None \<Rightarrow> Inl KeyError
      | Some v \<Rightarrow> Inr (v, PDict (filter (\<lambda>kv. fst kv \<noteq> key) kvs)))"
| "pop (PList xs) key = Inl TypeError"
| "pop _ key = Inl AttributeError"

definition case_request :: "pyval \<Rightarrow> py_error + request" where
  "case_request body =
     bindE (pop body ''section_id'') (\<lambda>popped.
       Inr (POST (''add_case/{}'', [fst popped]) (snd popped)))"

text \<open>
  The dictionary comprehension that submits one call per body: the requests built before
  the first body that raises, and that exception if there is one.
\<close>

fun build_requests ::
  "(pyval \<Rightarrow> py_error + request) \<Rightarrow> pyval list \<Rightarrow> request list \<times> py_error option" where
  "build_requests mk [] = ([], None)"
| "build_requests mk (body # bodies) =
     (case mk body of
        Inl e \<Rightarrow> ([], Some e)
      | Inr r \<Rightarrow> (case build_requests mk bodies of (rs, e) \<Rightarrow> (r # rs, e)))"

definition submit_all ::
  "('r, 'p) setting \<Rightarrow> request list \<Rightarrow> ('r, 'p) world
     \<Rightarrow> (future list \<times> nat option) \<times> ('r, 'p) world" where
  "submit_all S requests w =
     (case executor S requests (remote w) of
        (run, r') \<Rightarrow> (run, emit (Submitted requests) (w\<lparr>remote := r'\<rparr>)))"

definition case_resource :: "response \<Rightarrow> py_error + resource" where
  "case_resource response =
     bindE (getitem (response_text response) ''id'') (\<lambda>i.
     bindE (getitem (response_text response) ''section_id'') (\<lambda>s.
     bindE (getitem (response_text response) ''title'') (\<lambda>t.
       Inr [(''case_id'', i), (''section_id'', s), (''title'', t)])))"

definition add_cases :: "('r, 'p) setting \<Rightarrow> ('r, 'p, resource list \<times> string) action" where
  "add_cases S w =
     (let bodies = add_cases_data S (data_provider w);
          w0 = emit (ProgressOpen (int (length bodies)) ''Adding test cases'') w
      in case build_requests case_request bodies of
           (requests, Some e) \<Rightarrow> (Inl e, snd (submit_all S requests w0))
         | (requests, None) \<Rightarrow>
             (case submit_all S requests w0 of
                ((futures, interrupt), w1) \<Rightarrow>
                  (case handle_futures futures interrupt ''add_case'' w1 of
                     ((Inl e, futures1), w2) \<Rightarrow> (Inl e, w2)
                   | ((Inr (responses, err), futures1), w2) \<Rightarrow>
                       (let responses =
                              (if err \<noteq> ''''
                               then retrieve_results_after_cancelling S (shutdown futures1)
                               else responses)
                        in case mapE case_resource responses of
                             Inl e \<Rightarrow> (Inl e, w2)
                           | Inr returned_resources \<Rightarrow>
                               (Inr (returned_resources, err),
                                update_if_any S case_data returned_resources w2)))))"

definition add_run ::
  "('r, 'p) setting \<Rightarrow> int \<Rightarrow> string \<Rightarrow> ('r, 'p, pyval \<times> string) action" where
  "add_run S project_id run_name w =
     (let add_run_data = add_run_data S run_name (data_provider w) in
      case send_post S (''add_run/{}'', [PInt project_id]) add_run_data w of
        (response, w1) \<Rightarrow>
          (case get_method (response_text response) ''id'' of
             Inl e \<Rightarrow> (Inl e, w1)
           | Inr i \<Rightarrow> (Inr (i, error_message response), w1)))"

definition add_results ::
  "('r, 'p) setting \<Rightarrow> pyval \<Rightarrow> ('r, 'p, pyval list \<times> string) action" where
  "add_results S run_id w =
     (let add_results_data_chunks = add_results_for_cases S (batch_size S) (data_provider w) in
      case mapE (\<lambda>results. bindE (getitem results ''results'') py_len)
             add_results_data_chunks of
        Inl e \<Rightarrow> (Inl e, w)
      | Inr lens \<Rightarrow>
          (let w0 = emit (ProgressOpen (sum_list lens) ''Adding results'') w;
               requests = map (\<lambda>body. POST (''add_results_for_cases/{}'', [run_id]) body)
                            add_results_data_chunks
           in case submit_all S requests w0 of
                ((futures, interrupt), w1) \<Rightarrow>
                  (case handle_futures futures interrupt ''add_results'' w1 of
                     ((Inl e, futures1), w2) \<Rightarrow> (Inl e, w2)
                   | ((Inr (responses, err), futures1), w2) \<Rightarrow>
                       (let responses =
                              (if err \<noteq> ''''
                               then retrieve_results_after_cancelling S (shutdown futures1)
                               else responses)
                        in (Inr (map response_text responses, err), w2)))))"

definition close_run ::
  "('r, 'p) setting \<Rightarrow> pyval \<Rightarrow> ('r, 'p, pyval \<times> string) action" where
  "close_run S run_id w =
     (let body = PDict [(''run_id'', run_id)] in
      case send_post S (''close_run/{}'', [run_id]) body w of
        (response, w1) \<Rightarrow> (Inr (response_text response, error_message response), w1))"

section \<open>ResultsUploader\<close>

text \<open>
  \<open>add_function\<close> is called with the keyword \<open>project_id\<close> when the project id is true, and
  without an argument otherwise. \<open>add_suites\<close> and \<open>add_sections\<close> need the argument,
  \<open>add_cases\<close> takes none; the other way of calling each is a \<open>TypeError\<close>.
\<close>

definition needs_project_id ::
  "(int \<Rightarrow> ('r, 'p, 'a) action) \<Rightarrow> int option \<Rightarrow> ('r, 'p, 'a) action" where
  "needs_project_id f project_id w =
     (case project_id of None \<Rightarrow> (Inl TypeError, w) | Some i \<Rightarrow> f i w)"

definition takes_no_argument ::
  "('r, 'p, 'a) action \<Rightarrow> int option \<Rightarrow> ('r, 'p, 'a) action" where
  "takes_no_argument f project_id w =
     (case project_id of None \<Rightarrow> f w | Some i \<Rightarrow> (Inl TypeError, w))"

definition ResultsUploader_prompt_user_and_add_items ::
  "('r, 'p) setting \<Rightarrow> message \<Rightarrow> message \<Rightarrow> message
     \<Rightarrow> (int option \<Rightarrow> ('r, 'p, resource list \<times> string) action) \<Rightarrow> int option
     \<Rightarrow> ('r, 'p, resource list \<times> int) action" where
  "ResultsUploader_prompt_user_and_add_items S prompt_message adding_message fault_message
       add_function project_id w =
     (case prompt_user S prompt_message w of
        (answer, w1) \<Rightarrow>
          if answer then
            (case add_function (if truthy project_id then project_id else None)
                    (log adding_message w1) of
               (Inl e, w2) \<Rightarrow> (Inl e, w2)
             | (Inr (added_items, err), w2) \<Rightarrow>
                 if err \<noteq> '''' then (Inr (added_items, - 1), log (Text err) w2)
                 else (Inr (added_items, 1), w2))
          else (Inr ([], - 1), log fault_message w1))"

text \<open>
  The test \<open>if self.api_request_handler.check_suite_id(project_id)\<close> is made on the pair
  that \<open>check_suite_id\<close> returns. A tuple is false only when it is empty, so a pair is true
  whatever its components are.
\<close>

definition pair_is_true :: "'a \<times> 'b \<Rightarrow> bool" where
  "pair_is_true p = True"

definition ResultsUploader_check_suite_id ::
  "('r, 'p) setting \<Rightarrow> int option \<Rightarrow> int \<Rightarrow> ('r, 'p, pyval \<times> int) action" where
  "ResultsUploader_check_suite_id S suite_id project_id w =
     (case check_suite_id S project_id w of
        (Inl e, w1) \<Rightarrow> (Inl e, w1)
      | (Inr checked, w1) \<Rightarrow>
          if pair_is_true checked then (Inr (of_optional suite_id, 1), w1)
          else (Inr (of_optional suite_id, - 1),
                log (Format (FAULT_MAPPING S ''missing_suite'')
                       [(''suite_id'', of_optional suite_id)]) w1))"

text \<open>\<open>suite_ids[0]\<close>.\<close>

definition first_item :: "'a list \<Rightarrow> py_error + 'a" where
  "first_item xs = (case xs of [] \<Rightarrow> Inl IndexError | x # _ \<Rightarrow> Inr x)"

definition ResultsUploader_get_suite_id ::
  "('r, 'p) setting \<Rightarrow> int \<Rightarrow> int \<Rightarrow> ('r, 'p, pyval \<times> int) action" where
  "ResultsUploader_get_suite_id S project_id suite_mode w =
     (if \<not> truthy (provider_suite_id S (data_provider w)) then
        if suite_mode = multiple_suites S then
          (let prompt_message =
                 Format (PROMPT_MESSAGES S ''create_new_suite'')
                   [(''suite_name'', PStr (suite_name S (data_provider w))),
                    (''project_name'', PStr (project S))];
               adding_message =
                 Text (''Adding missing suites to project '' @ project S @ ''.'');
               fault_message =
                 Format (FAULT_MAPPING S ''no_user_agreement'') [(''type'', PStr ''suite'')]
           in case ResultsUploader_prompt_user_and_add_items S prompt_message adding_message
                     fault_message (needs_project_id (add_suites S)) (Some project_id) w of
                (Inl e, w1) \<Rightarrow> (Inl e, w1)
              | (Inr (added_suites, result_code), w1) \<Rightarrow>
                  if added_suites \<noteq> [] then
                    (case getitem (PDict (hd added_suites)) ''suite_id'' of
                       Inl e \<Rightarrow> (Inl e, w1)
                     | Inr suite_id \<Rightarrow> (Inr (suite_id, result_code), w1))
                  else (Inr (PInt (- 1), result_code), w1))
        else if suite_mode = single_suite_baselines S then
          (case get_suite_ids S project_id w of
             (Inl e, w1) \<Rightarrow> (Inl e, w1)
           | (Inr (suite_ids, err), w1) \<Rightarrow>
               if err \<noteq> '''' then (Inr (PInt (- 1), - 1), log (Text err) w1)
               else if length suite_ids > 1 then
                 (Inr (PInt (- 1), - 1),
                  log (Format (FAULT_MAPPING S ''not_unique_suite_id_single_suite_baselines'')
                         [(''project_name'', PStr (project S))]) w1)
               else
                 (case first_item suite_ids of
                    Inl e \<Rightarrow> (Inl e, w1)
                  | Inr suite_id \<Rightarrow> (Inr (suite_id, 1), w1)))
        else if suite_mode = single_suite S then
          (case get_suite_ids S project_id w of
             (Inl e, w1) \<Rightarrow> (Inl e, w1)
           | (Inr (suite_ids, err), w1) \<Rightarrow>
               if err \<noteq> '''' then (Inr (PInt (- 1), - 1), log (Text err) w1)
               else
                 (case first_item suite_ids of
                    Inl e \<Rightarrow> (Inl e, w1)
                  | Inr suite_id \<Rightarrow> (Inr (suite_id, 1), w1)))
        else
          (Inr (PInt (- 1), - 1),
           log (Format (FAULT_MAPPING S ''unknown_suite_mode'')
                  [(''suite_mode'', PInt suite_mode)]) w)
      else
        ResultsUploader_check_suite_id S (provider_suite_id S (data_provider w)) project_id w)"

definition ResultsUploader_add_missing_sections ::
  "('r, 'p) setting \<Rightarrow> int \<Rightarrow> ('r, 'p, resource list \<times> int) action" where
  "ResultsUploader_add_missing_sections S project_id w =
     (case check_missing_section_ids S project_id w of
        (Inl e, w1) \<Rightarrow> (Inl e, w1)
      | (Inr (missing_sections, err), w1) \<Rightarrow>
          if missing_sections \<noteq> [] then
            (let prompt_message =
                   Format (PROMPT_MESSAGES S ''create_missing_sections'')
                     [(''project_name'', PStr (project S))];
                 adding_message = Text ''Adding missing sections to the suite.'';
                 fault_message =
                   Format (FAULT_MAPPING S ''no_user_agreement'') [(''type'', PStr ''sections'')]
             in ResultsUploader_prompt_user_and_add_items S prompt_message adding_message
                  fault_message (needs_project_id (add_sections S)) (Some project_id) w1)
          else if err \<noteq> '''' then
            (Inr ([], - 1),
             log (Format (FAULT_MAPPING S ''error_checking_missing_item'')
                    [(''missing_item'', PStr ''missing sections''),
                     (''error_message'', PStr err)]) w1)
          else (Inr ([], 1), w1))"

definition ResultsUploader_add_missing_test_cases ::
  "('r, 'p) setting \<Rightarrow> int \<Rightarrow> ('r, 'p, resource list \<times> int) action" where
  "ResultsUploader_add_missing_test_cases S project_id w =
     (case check_missing_test_cases_ids S project_id w of
        (Inl e, w1) \<Rightarrow> (Inl e, w1)
      | (Inr (missing_test_cases, err), w1) \<Rightarrow>
          if missing_test_cases \<noteq> [] then
            (let prompt_message =
                   Format (PROMPT_MESSAGES S ''create_missing_test_cases'')
                     [(''project_name'', PStr (project S))];
                 adding_message = Text ''Adding missing test cases to the suite.'';
                 fault_message =
                   Format (FAULT_MAPPING S ''no_user_agreement'')
                     [(''type'', PStr ''test cases'')]
             in ResultsUploader_prompt_user_and_add_items S prompt_message adding_message
                  fault_message (takes_no_argument (add_cases S)) None w1)
          else if err \<noteq> '''' then
            (Inr ([], - 1),
             log (Format (FAULT_MAPPING S ''error_checking_missing_item'')
                    [(''missing_item'', PStr ''missing test cases''),
                     (''error_message'', PStr err)]) w1)
          else (Inr ([], 1), w1))"

text \<open>
  \<open>upload_results\<close>. Every \<open>exit(1)\<close> ends the run with \<open>SystemExit 1\<close>. The three lines
  logged at the end show elapsed times, whose numbers are not modelled: the text of each
  f-string stands for the line.
\<close>

definition upload_results :: "('r, 'p) setting \<Rightarrow> ('r, 'p, unit) action" where
  "upload_results S w =
     (case get_project_id S (project S) w of
        (Inl e, w1) \<Rightarrow> (Inl e, w1)
      | (Inr project_data, w1) \<Rightarrow>
          if data_project_id project_data = not_existing_project S then
            (Inl (SystemExit 1), log (Text (data_error_message project_data)) w1)
          else if data_project_id project_data = other_error S then
            (Inl (SystemExit 1),
             log (Format (FAULT_MAPPING S ''error_checking_project'')
                    [(''error_message'', PStr (data_error_message project_data))]) w1)
          else
            (case ResultsUploader_get_suite_id S (data_project_id project_data)
                    (data_suite_mode project_data) w1 of
               (Inl e, w2) \<Rightarrow> (Inl e, w2)
             | (Inr (suite_id, result_code), w2) \<Rightarrow>
                 if result_code = - 1 then (Inl (SystemExit 1), w2)
                 else
             (case ResultsUploader_add_missing_sections S (data_project_id project_data) w2 of
                (Inl e, w3) \<Rightarrow> (Inl e, w3)
              | (Inr (added_sections, result_code), w3) \<Rightarrow>
                  if result_code = - 1 then (Inl (SystemExit 1), w3)
                  else
             (case ResultsUploader_add_missing_test_cases S (data_project_id project_data) w3 of
                (Inl e, w4) \<Rightarrow> (Inl e, w4)
              | (Inr (added_test_cases, result_code), w4) \<Rightarrow>
                  if result_code = - 1 then (Inl (SystemExit 1), w4)
                  else
             (case (if \<not> truthy (environment_run_id S) then
                      (case add_run S (data_project_id project_data) (title S)
                              (log (Text ''Creating test run. '') w4) of
                         (Inl e, w5) \<Rightarrow> (Inl e, w5)
                       | (Inr (added_run, err), w5) \<Rightarrow>
                           if err \<noteq> '''' then (Inl (SystemExit 1), log (Text err) w5)
                           else (Inr added_run, log (Text ''Done.'') w5))
                    else (Inr (of_optional (environment_run_id S)), w4)) of
                (Inl e, w5) \<Rightarrow> (Inl e, w5)
              | (Inr run_id, w5) \<Rightarrow>
             (case add_results S run_id w5 of
                (Inl e, w6) \<Rightarrow> (Inl e, w6)
              | (Inr (added_results, err), w6) \<Rightarrow>
                  if err \<noteq> '''' then (Inl (SystemExit 1), log (Text err) w6)
                  else
             (case close_run S run_id (log (Text ''Closing test run. '') w6) of
                (Inl e, w7) \<Rightarrow> (Inl e, w7)
              | (Inr (response, err), w7) \<Rightarrow>
                  if err \<noteq> '''' then (Inl (SystemExit 1), log (Text err) w7)
                  else
                    (Inr (),
                     log (Format ''Adding results in: {stop_adding_results - start_adding_results}'' [])
                       (log (Format ''Adding test cases in: {stop_adding_test_cases - start_adding_test_cases}'' [])
                          (log (Format ''Executed in: {stop - start}'' [])
                             (log (Text ''Done.'') w7)))))))))))"

section \<open>Answers of the service and concrete settings\<close>

text \<open>
  The list of projects as the service sends it: every entry carries \<open>id\<close>, \<open>name\<close> and
  \<open>suite_mode\<close>. An entry is written here as the triple of the three.
\<close>

definition project_json :: "int \<times> string \<times> int \<Rightarrow> pyval" where
  "project_json p =
     PDict [(''id'', PInt (fst p)), (''name'', PStr (fst (snd p))),
            (''suite_mode'', PInt (snd (snd p)))]"

definition answer :: "pyval \<Rightarrow> response" where
  "answer v = \<lparr>response_text = v, error_message = ''''\<rparr>"

definition failure :: "pyval \<Rightarrow> string \<Rightarrow> response" where
  "failure v e = \<lparr>response_text = v, error_message = e\<rparr>"

text \<open>
  A setting for concrete runs: the service answers by a fixed table, the user agrees to
  every question, the pool reports a fixed outcome, every future has rank 0 (so the salvage
  pass takes the futures in the order of the first pass), and the data provider's tree is
  just the suite id. The suite modes are numbered 1, 2, 3 and the project errors -1, -2, -3.
\<close>

definition example_setting ::
  "(request \<Rightarrow> response) \<Rightarrow> (request list \<Rightarrow> future list \<times> nat option)
     \<Rightarrow> (unit, int option) setting" where
  "example_setting answers pool =
     \<lparr>send = (\<lambda>req r. (answers req, r)),
      get_prompt_response_for_auto_creation = (\<lambda>m r. (True, r)),
      executor = (\<lambda>reqs r. (pool reqs, r)),
      finished_order = (\<lambda>f. 0),
      multiple_project_same_name = - 1,
      not_existing_project = - 2,
      other_error = - 3,
      single_suite = 1,
      single_suite_baselines = 2,
      multiple_suites = 3,
      FAULT_MAPPING = (\<lambda>key. key),
      PROMPT_MESSAGES = (\<lambda>key. key),
      project = ''Demo'',
      environment_run_id = None,
      title = ''Nightly'',
      batch_size = 50,
      provider_suite_id = (\<lambda>p. p),
      suite_name = (\<lambda>p. ''Smoke''),
      testsections = (\<lambda>p. [Some 10, Some 11]),
      testcases = (\<lambda>p. [Some 100, Some 101]),
      add_suites_data = (\<lambda>p. [PDict [(''name'', PStr ''Smoke'')]]),
      add_sections_data =
        (\<lambda>p. [PDict [(''name'', PStr ''A'')], PDict [(''name'', PStr ''B'')],
              PDict [(''name'', PStr ''C'')]]),
      add_cases_data =
        (\<lambda>p. [PDict [(''section_id'', PInt 10), (''title'', PStr ''t1'')],
              PDict [(''section_id'', PInt 10), (''title'', PStr ''t2'')],
              PDict [(''section_id'', PInt 11), (''title'', PStr ''t3'')]]),
      add_run_data = (\<lambda>run_name p. PDict [(''name'', PStr run_name)]),
      add_results_for_cases =
        (\<lambda>size p. [PDict [(''results'', PList [PInt 1, PInt 2])],
                   PDict [(''results'', PList [PInt 3])],
                   PDict [(''results'', PList [PInt 4])]]),
      update_data = (\<lambda>u p. p)\<rparr>"

definition start :: "int option \<Rightarrow> (unit, int option) world" where
  "start pinned = \<lparr>remote = (), data_provider = pinned, trace = []\<rparr>"

definition no_pool :: "request list \<Rightarrow> future list \<times> nat option" where
  "no_pool reqs = ([], None)"

text \<open>The service knows the project \<open>Demo\<close> once, with id 7 and suite mode 1.\<close>

definition demo_projects :: "request \<Rightarrow> response" where
  "demo_projects req =
     (if req = GET (''get_projects'', [])
      then answer (PDict [(''projects'',
             PList (map project_json [(7, ''Demo'', 1), (8, ''Other'', 3)]))])
      else answer PNone)"

text \<open>
  The service lists two suites, with ids 1 and 2, for project 7.
\<close>

definition two_suites :: "request \<Rightarrow> response" where
  "two_suites req =
     (if req = GET (''get_suites/{}'', [PInt 7])
      then answer (PList [PDict [(''id'', PInt 1), (''name'', PStr ''Master'')],
                          PDict [(''id'', PInt 2), (''name'', PStr ''Baseline'')]])
      else answer PNone)"

text \<open>The transport fails on every request.\<close>

definition unreachable :: "request \<Rightarrow> response" where
  "unreachable req = failure (PStr '''') ''Unable to connect''"

text \<open>The project \<open>Demo\<close> (id 7, suite mode 1) exists, and the service lists no suite for it.\<close>

definition no_suites :: "request \<Rightarrow> response" where
  "no_suites req =
     (if req = GET (''get_projects'', []) then demo_projects req
      else if req = GET (''get_suites/{}'', [PInt 7]) then answer (PList [])
      else answer PNone)"

text \<open>
  The answer to \<open>get_sections\<close> and \<open>get_cases\<close> as the service sends it: under the key
  \<open>sections\<close> or \<open>cases\<close>, a list of entries that carry an \<open>id\<close>.
\<close>

definition id_listing :: "string \<Rightarrow> pyval list \<Rightarrow> pyval" where
  "id_listing key ids = PDict [(key, PList (map (\<lambda>i. PDict [(''id'', i)]) ids))]"

text \<open>The two requests by which the missing sections and test cases are checked.\<close>

definition sections_request :: "('r, 'p) setting \<Rightarrow> int \<Rightarrow> ('r, 'p) world \<Rightarrow> request" where
  "sections_request S project_id w =
     GET (''get_sections/{}&suite_id={}'',
          [PInt project_id, of_optional (provider_suite_id S (data_provider w))])"

definition cases_request :: "('r, 'p) setting \<Rightarrow> int \<Rightarrow> ('r, 'p) world \<Rightarrow> request" where
  "cases_request S project_id w =
     GET (''get_cases/{}&suite_id={}'',
          [PInt project_id, of_optional (provider_suite_id S (data_provider w))])"

text \<open>The service lists the sections 10, 11, 12 and the cases 100, 101 of suite 1.\<close>

definition synchronized :: "request \<Rightarrow> response" where
  "synchronized req =
     (if req = GET (''get_sections/{}&suite_id={}'', [PInt 7, PInt 1])
      then answer (id_listing ''sections'' [PInt 10, PInt 11, PInt 12])
      else if req = GET (''get_cases/{}&suite_id={}'', [PInt 7, PInt 1])
      then answer (id_listing ''cases'' [PInt 100, PInt 101])
      else answer PNone)"

text \<open>
  What the transport answers when the given requests are sent one after the other,
  starting in state \<open>r\<close>, and the state it is in afterwards.
\<close>

fun conversation :: "(request \<Rightarrow> 'r \<Rightarrow> response \<times> 'r) \<Rightarrow> request list \<Rightarrow> 'r \<Rightarrow> response list" where
  "conversation transport [] r = []"
| "conversation transport (q # qs) r =
     (case transport q r of (a, r') \<Rightarrow> a # conversation transport qs r')"

fun remote_after :: "(request \<Rightarrow> 'r \<Rightarrow> response \<times> 'r) \<Rightarrow> request list \<Rightarrow> 'r \<Rightarrow> 'r" where
  "remote_after transport [] r = r"
| "remote_after transport (q # qs) r = remote_after transport qs (snd (transport q r))"

text \<open>The position of the first answer with an error message (the length, if there is none).\<close>

definition first_failure :: "response list \<Rightarrow> nat" where
  "first_failure answers = length (takeWhile (\<lambda>a. error_message a = '''') answers)"

text \<open>
  The service creates the suite \<open>Smoke\<close> and the section \<open>A\<close>, and refuses the section \<open>B\<close>.
\<close>

definition refuses_B :: "request \<Rightarrow> response" where
  "refuses_B req =
     (if req = POST (''add_suite/{}'', [PInt 7]) (PDict [(''name'', PStr ''Smoke'')])
      then answer (PDict [(''id'', PInt 1), (''name'', PStr ''Smoke'')])
      else if req = POST (''add_section/{}'', [PInt 7]) (PDict [(''name'', PStr ''A'')])
      then answer (PDict [(''id'', PInt 10), (''suite_id'', PInt 1), (''name'', PStr ''A'')])
      else if req = POST (''add_section/{}'', [PInt 7]) (PDict [(''name'', PStr ''B'')])
      then failure (PDict [(''error'', PStr ''Field :name is too long.'')])
             ''Field :name is too long.''
      else answer PNone)"

text \<open>
  What \<open>handle_futures\<close> reports to the progress bar for a unit that succeeded: the number
  of results of a chunk, and 1 for a case.
\<close>

definition progress_weight :: "string \<Rightarrow> future \<Rightarrow> py_error + int" where
  "progress_weight action_string f =
     (if action_string = ''add_results''
      then bindE (getitem (arguments f) ''results'') py_len
      else Inr 1)"

text \<open>A future that \<open>as_completed\<close> has yielded.\<close>

definition finished :: "future \<Rightarrow> future" where
  "finished f = f\<lparr>state := Finished\<rparr>"

definition aborting :: "string \<Rightarrow> event" where
  "aborting action_string =
     Log (Text ([CHR 0x0A] @ ''Aborting: '' @ action_string
                  @ ''. Trying to cancel scheduled tasks.''))"

text \<open>
  Outcomes of a pool of three units. The body of a submitted request is kept beside its
  future.
\<close>

fun body_of :: "request \<Rightarrow> pyval" where
  "body_of (POST p body) = body"
| "body_of (GET p) = PNone"

definition unit_of :: "request \<Rightarrow> response \<Rightarrow> fstate \<Rightarrow> future" where
  "unit_of req resp st = \<lparr>arguments = body_of req, result = resp, state = st\<rparr>"

definition bad_request :: response where
  "bad_request =
     failure (PDict [(''error'', PStr ''Field :title is a required field.'')])
       ''Field :title is a required field.''"

text \<open>
  The first unit finishes with the answer \<open>good\<close>, the second finishes with an error, and
  the third is still in the queue when the batch is cancelled.
\<close>

definition second_unit_fails :: "response \<Rightarrow> request list \<Rightarrow> future list \<times> nat option" where
  "second_unit_fails good reqs =
     (case reqs of
        [a, b, c] \<Rightarrow>
          ([unit_of a good Finished, unit_of b bad_request Finished,
            unit_of c (answer PNone) Queued], None)
      | _ \<Rightarrow> ([], None))"

text \<open>
  The first unit finishes with the answer \<open>good\<close>; then, while the second is running and
  the third is in the queue, the user interrupts.
\<close>

definition interrupted_after_first :: "response \<Rightarrow> request list \<Rightarrow> future list \<times> nat option" where
  "interrupted_after_first good reqs =
     (case reqs of
        [a, b, c] \<Rightarrow>
          ([unit_of a good Finished, unit_of b good Running, unit_of c good Queued], Some 1)
      | _ \<Rightarrow> ([], None))"

definition created_case :: response where
  "created_case =
     answer (PDict [(''id'', PInt 100), (''section_id'', PInt 10), (''title'', PStr ''t1'')])"

definition stored_results :: response where
  "stored_results = answer (PList [PDict [(''id'', PInt 1)], PDict [(''id'', PInt 2)]])"

text \<open>
  The body of an answer to a create request, read without the program's own accessors:
  \<open>carries a bindings\<close> says that the body of \<open>a\<close> is a dictionary that binds each of the
  given keys to the given value. It may bind other keys as well.
\<close>

definition carries :: "response \<Rightarrow> (string \<times> pyval) list \<Rightarrow> bool" where
  "carries a bindings =
     (case response_text a of
        PDict kvs \<Rightarrow> list_all (\<lambda>b. map_of kvs (fst b) = Some (snd b)) bindings
      | _ \<Rightarrow> False)"

section \<open>Properties\<close>

lemma bindE_Inr [simp]: "bindE (Inr x) f = f x"
  by (simp add: bindE_def)

lemma bindE_Inl [simp]: "bindE (Inl e) f = Inl e"
  by (simp add: bindE_def)

subsection \<open>Project resolution\<close>

lemma name_matches_json:
  "bindE (getitem (project_json p) ''name'') (\<lambda>n. Inr (n = PStr name))
   = Inr (fst (snd p) = name)"
  by (simp add: project_json_def)

lemma filterE_projects:
  "filterE (\<lambda>project. bindE (getitem project ''name'') (\<lambda>n. Inr (n = PStr name)))
      (map project_json ps)
   = Inr (map project_json (filter (\<lambda>p. fst (snd p) = name) ps))"
  by (induction ps) (simp_all add: name_matches_json)

lemma available_projects_json:
  "available_projects (PDict [(''projects'', PList (map project_json ps))]) name
   = Inr (map project_json (filter (\<lambda>p. fst (snd p) = name) ps))"
  by (simp add: available_projects_def filterE_projects)

text \<open>
  Claim C6. \<open>get_project_id\<close> sends one \<open>get_projects\<close> request and keeps the projects whose
  name equals the requested one. When the transport reports an error the result is the
  \<open>other_error\<close> code with the transport's message. Otherwise, with no matching project the
  result is \<open>not_existing_project\<close>, with exactly one it is that project's id and suite mode
  with an empty error message, and with more than one it is \<open>multiple_project_same_name\<close>.
  The four cases exclude each other and leave no other.
\<close>

theorem get_project_id_outcomes:
  assumes "send S (GET (''get_projects'', [])) (remote w) = (response, r')"
      and "error_message response = '''' \<Longrightarrow>
             response_text response = PDict [(''projects'', PList (map project_json ps))]"
  shows "get_project_id S name w =
           (Inr (if error_message response \<noteq> '''' then
                   \<lparr>data_project_id = other_error S, data_suite_mode = - 1,
                    data_error_message = error_message response\<rparr>
                 else
                   (case filter (\<lambda>p. fst (snd p) = name) ps of
                      [] \<Rightarrow>
                        \<lparr>data_project_id = not_existing_project S, data_suite_mode = - 1,
                         data_error_message =
                           name @ '' '' @ FAULT_MAPPING S ''project_doesnt_exists''\<rparr>
                    | [p] \<Rightarrow>
                        \<lparr>data_project_id = fst p, data_suite_mode = snd (snd p),
                         data_error_message = ''''\<rparr>
                    | _ \<Rightarrow>
                        \<lparr>data_project_id = multiple_project_same_name S, data_suite_mode = - 1,
                         data_error_message = FAULT_MAPPING S ''more_than_one_project''\<rparr>)),
            emit (Sent (GET (''get_projects'', []))) (w\<lparr>remote := r'\<rparr>))"
proof (cases "error_message response = ''''")
  case False
  with assms(1) show ?thesis
    by (simp add: get_project_id_def send_get_def send_request_def)
next
  case True
  note shape = assms(2)[OF True]
  show ?thesis
  proof (cases "filter (\<lambda>p. fst (snd p) = name) ps")
    case Nil
    with True shape assms(1) show ?thesis
      by (simp add: get_project_id_def send_get_def send_request_def available_projects_json)
  next
    case (Cons p qs)
    show ?thesis
    proof (cases qs)
      case Nil
      with Cons True shape assms(1) show ?thesis
        by (simp add: get_project_id_def send_get_def send_request_def available_projects_json
              project_json_def)
    next
      case (Cons q rs)
      with \<open>filter (\<lambda>p. fst (snd p) = name) ps = p # qs\<close> True shape assms(1) show ?thesis
        by (simp add: get_project_id_def send_get_def send_request_def available_projects_json)
    qed
  qed
qed

theorem get_project_id_outcomes_witness:
  "get_project_id (example_setting demo_projects no_pool) ''Demo'' (start None) =
     (Inr \<lparr>data_project_id = 7, data_suite_mode = 1, data_error_message = ''''\<rparr>,
      \<lparr>remote = (), data_provider = None, trace = [Sent (GET (''get_projects'', []))]\<rparr>)"
proof -
  let ?S = "example_setting demo_projects no_pool"
  let ?resp = "answer (PDict [(''projects'',
                 PList (map project_json [(7, ''Demo'', 1), (8, ''Other'', 3)]))])"
  have sent: "send ?S (GET (''get_projects'', [])) (remote (start None)) = (?resp, ())"
    by (simp add: example_setting_def demo_projects_def)
  have shape: "error_message ?resp = '''' \<Longrightarrow>
      response_text ?resp =
        PDict [(''projects'', PList (map project_json [(7, ''Demo'', 1), (8, ''Other'', 3)]))]"
    by (simp add: answer_def)
  show ?thesis
    using get_project_id_outcomes [OF sent shape, of "''Demo''"]
    by (simp add: answer_def emit_def start_def)
qed

subsection \<open>Suite resolution\<close>

lemmas run_defs = example_setting_def start_def send_get_def send_post_def send_request_def
  emit_def log_def answer_def failure_def update_if_any_def prompt_user_def

text \<open>
  Claim C2. With a suite id given in advance, resolution should succeed exactly when the
  service lists that id, fail with result code -1 and the missing-suite message when it
  does not, and fail when the membership query fails. The code does not: with suite 5
  given and the service listing suites 1 and 2, \<open>check_suite_id\<close> returns \<open>(False, "")\<close> and
  resolution still returns suite 5 with result code 1 and logs nothing; with a transport
  that fails, it returns suite 5 with result code 1 as well.
\<close>

theorem pinned_suite_always_accepted:
  "check_suite_id (example_setting two_suites no_pool) 7 (start (Some 5)) =
     (Inr (Some False, ''''),
      \<lparr>remote = (), data_provider = Some 5,
       trace = [Sent (GET (''get_suites/{}'', [PInt 7]))]\<rparr>)
   \<and> ResultsUploader_get_suite_id (example_setting two_suites no_pool) 7 1 (start (Some 5)) =
     (Inr (PInt 5, 1),
      \<lparr>remote = (), data_provider = Some 5,
       trace = [Sent (GET (''get_suites/{}'', [PInt 7]))]\<rparr>)
   \<and> ResultsUploader_get_suite_id (example_setting unreachable no_pool) 7 1 (start (Some 5)) =
     (Inr (PInt 5, 1),
      \<lparr>remote = (), data_provider = Some 5,
       trace = [Sent (GET (''get_suites/{}'', [PInt 7]))]\<rparr>)"
  by (simp add: ResultsUploader_get_suite_id_def ResultsUploader_check_suite_id_def
        check_suite_id_def pair_is_true_def two_suites_def unreachable_def run_defs)

text \<open>
  Claim C3. In single-suite mode with no suite id given and an empty suite list, resolution
  should return suite id -1 with result code -1, the pipeline should exit with code 1, and
  no run should be created. In the code \<open>suite_ids[0]\<close> raises \<open>IndexError\<close>: the pipeline
  ends by that exception after the two GET requests, not by \<open>exit(1)\<close>; no run is created.
\<close>

theorem upload_results_empty_suite_list:
  "upload_results (example_setting no_suites no_pool) (start None) =
     (Inl IndexError,
      \<lparr>remote = (), data_provider = None,
       trace = [Sent (GET (''get_projects'', [])), Sent (GET (''get_suites/{}'', [PInt 7]))]\<rparr>)"
  by (simp add: upload_results_def get_project_id_def available_projects_def
        ResultsUploader_get_suite_id_def get_suite_ids_def first_item_def
        no_suites_def demo_projects_def project_json_def run_defs)

text \<open>
  Claim C4. For every suite mode and every behaviour of transport and user, resolution
  should return either a valid suite id with the success code or -1 with the failure code.
  In the mode single suite with baselines (as in single-suite mode) an empty suite list
  makes the code raise \<open>IndexError\<close> at \<open>suite_ids[0]\<close>, which is neither outcome.
\<close>

theorem get_suite_id_baselines_empty_suite_list:
  "ResultsUploader_get_suite_id (example_setting no_suites no_pool) 7 2 (start None) =
     (Inl IndexError,
      \<lparr>remote = (), data_provider = None,
       trace = [Sent (GET (''get_suites/{}'', [PInt 7]))]\<rparr>)"
  by (simp add: ResultsUploader_get_suite_id_def get_suite_ids_def first_item_def
        no_suites_def run_defs)

subsection \<open>Reconciliation of sections and test cases\<close>


lemma mapE_get_id:
  "mapE (\<lambda>item. get_method item ''id'') (map (\<lambda>i. PDict [(''id'', i)]) ids) = Inr ids"
  by (induction ids) simp_all

lemma missing_ids_listing:
  "missing_ids local (id_listing key ids) key =
     (if list_all hashable ids
      then Inr (remdups (filter (\<lambda>i. i \<notin> set ids) (map of_optional local)))
      else Inl TypeError)"
  by (simp add: missing_ids_def id_listing_def mapE_get_id)

lemma check_missing_section_ids_trace:
  "check_missing_section_ids S project_id w = (res, w1) \<Longrightarrow>
   w1 = w\<lparr>remote := snd (send S (sections_request S project_id w) (remote w)),
          trace := trace w @ [Sent (sections_request S project_id w)]\<rparr>"
  by (auto simp: check_missing_section_ids_def sections_request_def send_get_def
        send_request_def emit_def Let_def split: prod.splits if_splits sum.splits)

lemma check_missing_test_cases_ids_trace:
  "check_missing_test_cases_ids S project_id w = (res, w1) \<Longrightarrow>
   w1 = w\<lparr>remote := snd (send S (cases_request S project_id w) (remote w)),
          trace := trace w @ [Sent (cases_request S project_id w)]\<rparr>"
  by (auto simp: check_missing_test_cases_ids_def cases_request_def send_get_def
        send_request_def emit_def Let_def split: prod.splits if_splits sum.splits)

text \<open>
  Claim C8. When the request that checks for missing sections (or for missing test cases)
  comes back with an error message, the stage logs the error and returns the empty list
  with result code -1. The trace grows by exactly that request and that log line: the user
  is not asked and nothing is created.
\<close>

theorem check_error_propagates_without_prompt:
  "(send S (sections_request S project_id w) (remote w) = (response, r') \<and>
      error_message response \<noteq> '''' \<longrightarrow>
    ResultsUploader_add_missing_sections S project_id w =
      (Inr ([], - 1),
       w\<lparr>remote := r',
         trace := trace w @
           [Sent (sections_request S project_id w),
            Log (Format (FAULT_MAPPING S ''error_checking_missing_item'')
                   [(''missing_item'', PStr ''missing sections''),
                    (''error_message'', PStr (error_message response))])]\<rparr>))
   \<and> (send S (cases_request S project_id w) (remote w) = (response, r') \<and>
      error_message response \<noteq> '''' \<longrightarrow>
    ResultsUploader_add_missing_test_cases S project_id w =
      (Inr ([], - 1),
       w\<lparr>remote := r',
         trace := trace w @
           [Sent (cases_request S project_id w),
            Log (Format (FAULT_MAPPING S ''error_checking_missing_item'')
                   [(''missing_item'', PStr ''missing test cases''),
                    (''error_message'', PStr (error_message response))])]\<rparr>))"
  by (simp add: ResultsUploader_add_missing_sections_def check_missing_section_ids_def
        ResultsUploader_add_missing_test_cases_def check_missing_test_cases_ids_def
        sections_request_def cases_request_def send_get_def send_request_def emit_def log_def)

text \<open>
  Claim C7. When the check of missing sections (or of missing test cases) succeeds with an
  empty difference, the stage returns the empty list with result code 1, and all it has
  done is the one request of the check: no question to the user, no create call, no
  change of the data provider. Consequently, when the service already lists every local
  id, a run of the stage (a second one as well as a first) sends the check and nothing
  else.
\<close>

theorem empty_diff_creates_nothing:
  "(check_missing_section_ids S project_id w = (Inr ([], ''''), w1) \<longrightarrow>
      ResultsUploader_add_missing_sections S project_id w = (Inr ([], 1), w1) \<and>
      trace w1 = trace w @ [Sent (sections_request S project_id w)] \<and>
      data_provider w1 = data_provider w)
   \<and> (check_missing_test_cases_ids S project_id w = (Inr ([], ''''), w1) \<longrightarrow>
      ResultsUploader_add_missing_test_cases S project_id w = (Inr ([], 1), w1) \<and>
      trace w1 = trace w @ [Sent (cases_request S project_id w)] \<and>
      data_provider w1 = data_provider w)
   \<and> (send S (sections_request S project_id w) (remote w) = (response, r') \<and>
      error_message response = '''' \<and>
      response_text response = id_listing ''sections'' ids \<and> list_all hashable ids \<and>
      set (map of_optional (testsections S (data_provider w))) \<subseteq> set ids \<longrightarrow>
      ResultsUploader_add_missing_sections S project_id w =
        (Inr ([], 1),
         w\<lparr>remote := r', trace := trace w @ [Sent (sections_request S project_id w)]\<rparr>))
   \<and> (send S (cases_request S project_id w) (remote w) = (response, r') \<and>
      error_message response = '''' \<and>
      response_text response = id_listing ''cases'' ids \<and> list_all hashable ids \<and>
      set (map of_optional (testcases S (data_provider w))) \<subseteq> set ids \<longrightarrow>
      ResultsUploader_add_missing_test_cases S project_id w =
        (Inr ([], 1),
         w\<lparr>remote := r', trace := trace w @ [Sent (cases_request S project_id w)]\<rparr>))"
proof (intro conjI impI)
  assume h: "check_missing_section_ids S project_id w = (Inr ([], ''''), w1)"
  then show "ResultsUploader_add_missing_sections S project_id w = (Inr ([], 1), w1)"
    by (simp add: ResultsUploader_add_missing_sections_def)
  from check_missing_section_ids_trace [OF h]
  show "trace w1 = trace w @ [Sent (sections_request S project_id w)]"
    and "data_provider w1 = data_provider w"
    by simp_all
next
  assume h: "check_missing_test_cases_ids S project_id w = (Inr ([], ''''), w1)"
  then show "ResultsUploader_add_missing_test_cases S project_id w = (Inr ([], 1), w1)"
    by (simp add: ResultsUploader_add_missing_test_cases_def)
  from check_missing_test_cases_ids_trace [OF h]
  show "trace w1 = trace w @ [Sent (cases_request S project_id w)]"
    and "data_provider w1 = data_provider w"
    by simp_all
next
  assume h: "send S (sections_request S project_id w) (remote w) = (response, r') \<and>
      error_message response = '''' \<and>
      response_text response = id_listing ''sections'' ids \<and> list_all hashable ids \<and>
      set (map of_optional (testsections S (data_provider w))) \<subseteq> set ids"
  then have "filter (\<lambda>i. i \<notin> set ids) (map of_optional (testsections S (data_provider w))) = []"
    by (auto simp: filter_empty_conv)
  with h show "ResultsUploader_add_missing_sections S project_id w =
        (Inr ([], 1),
         w\<lparr>remote := r', trace := trace w @ [Sent (sections_request S project_id w)]\<rparr>)"
    by (simp add: ResultsUploader_add_missing_sections_def check_missing_section_ids_def
          sections_request_def send_get_def send_request_def emit_def missing_ids_listing)
next
  assume h: "send S (cases_request S project_id w) (remote w) = (response, r') \<and>
      error_message response = '''' \<and>
      response_text response = id_listing ''cases'' ids \<and> list_all hashable ids \<and>
      set (map of_optional (testcases S (data_provider w))) \<subseteq> set ids"
  then have "filter (\<lambda>i. i \<notin> set ids) (map of_optional (testcases S (data_provider w))) = []"
    by (auto simp: filter_empty_conv)
  with h show "ResultsUploader_add_missing_test_cases S project_id w =
        (Inr ([], 1),
         w\<lparr>remote := r', trace := trace w @ [Sent (cases_request S project_id w)]\<rparr>)"
    by (simp add: ResultsUploader_add_missing_test_cases_def check_missing_test_cases_ids_def
          cases_request_def send_get_def send_request_def emit_def missing_ids_listing)
qed



theorem check_error_propagates_without_prompt_witness:
  "ResultsUploader_add_missing_sections (example_setting unreachable no_pool) 7 (start (Some 1)) =
     (Inr ([], - 1),
      \<lparr>remote = (), data_provider = Some 1,
       trace = [Sent (GET (''get_sections/{}&suite_id={}'', [PInt 7, PInt 1])),
                Log (Format ''error_checking_missing_item''
                       [(''missing_item'', PStr ''missing sections''),
                        (''error_message'', PStr ''Unable to connect'')])]\<rparr>)
   \<and> ResultsUploader_add_missing_test_cases (example_setting unreachable no_pool) 7
       (start (Some 1)) =
     (Inr ([], - 1),
      \<lparr>remote = (), data_provider = Some 1,
       trace = [Sent (GET (''get_cases/{}&suite_id={}'', [PInt 7, PInt 1])),
                Log (Format ''error_checking_missing_item''
                       [(''missing_item'', PStr ''missing test cases''),
                        (''error_message'', PStr ''Unable to connect'')])]\<rparr>)"
proof -
  let ?S = "example_setting unreachable no_pool"
  let ?w = "start (Some 1)"
  let ?resp = "failure (PStr []) ''Unable to connect''"
  have s: "send ?S (sections_request ?S 7 ?w) (remote ?w) = (?resp, ()) \<and>
           error_message ?resp \<noteq> []"
    by (simp add: example_setting_def unreachable_def failure_def)
  have c: "send ?S (cases_request ?S 7 ?w) (remote ?w) = (?resp, ()) \<and>
           error_message ?resp \<noteq> []"
    by (simp add: example_setting_def unreachable_def failure_def)
  note inst = check_error_propagates_without_prompt [of ?S 7 ?w ?resp "()"]
  from inst [THEN conjunct1, rule_format, OF s] inst [THEN conjunct2, rule_format, OF c]
  show ?thesis
    by (simp add: sections_request_def cases_request_def example_setting_def start_def
          failure_def)
qed

theorem empty_diff_creates_nothing_witness:
  "ResultsUploader_add_missing_sections (example_setting synchronized no_pool) 7 (start (Some 1)) =
     (Inr ([], 1),
      \<lparr>remote = (), data_provider = Some 1,
       trace = [Sent (GET (''get_sections/{}&suite_id={}'', [PInt 7, PInt 1]))]\<rparr>)
   \<and> ResultsUploader_add_missing_test_cases (example_setting synchronized no_pool) 7
       (start (Some 1)) =
     (Inr ([], 1),
      \<lparr>remote = (), data_provider = Some 1,
       trace = [Sent (GET (''get_cases/{}&suite_id={}'', [PInt 7, PInt 1]))]\<rparr>)"
proof -
  let ?S = "example_setting synchronized no_pool"
  let ?w = "start (Some 1)"
  let ?ws = "\<lparr>remote = (), data_provider = Some 1,
       trace = [Sent (GET (''get_sections/{}&suite_id={}'', [PInt 7, PInt 1]))]\<rparr>"
  let ?wc = "\<lparr>remote = (), data_provider = Some 1,
       trace = [Sent (GET (''get_cases/{}&suite_id={}'', [PInt 7, PInt 1]))]\<rparr>"
  let ?rs = "answer (id_listing ''sections'' [PInt 10, PInt 11, PInt 12])"
  let ?rc = "answer (id_listing ''cases'' [PInt 100, PInt 101])"
  have s1: "check_missing_section_ids ?S 7 ?w = (Inr ([], []), ?ws)"
    by (simp add: check_missing_section_ids_def synchronized_def missing_ids_def
          id_listing_def run_defs)
  have c1: "check_missing_test_cases_ids ?S 7 ?w = (Inr ([], []), ?wc)"
    by (simp add: check_missing_test_cases_ids_def synchronized_def missing_ids_def
          id_listing_def run_defs)
  have s2: "send ?S (sections_request ?S 7 ?w) (remote ?w) = (?rs, ()) \<and>
      error_message ?rs = [] \<and>
      response_text ?rs = id_listing ''sections'' [PInt 10, PInt 11, PInt 12] \<and>
      list_all hashable [PInt 10, PInt 11, PInt 12] \<and>
      set (map of_optional (testsections ?S (data_provider ?w)))
        \<subseteq> set [PInt 10, PInt 11, PInt 12]"
    by (simp add: sections_request_def synchronized_def run_defs)
  have c2: "send ?S (cases_request ?S 7 ?w) (remote ?w) = (?rc, ()) \<and>
      error_message ?rc = [] \<and>
      response_text ?rc = id_listing ''cases'' [PInt 100, PInt 101] \<and>
      list_all hashable [PInt 100, PInt 101] \<and>
      set (map of_optional (testcases ?S (data_provider ?w))) \<subseteq> set [PInt 100, PInt 101]"
    by (simp add: cases_request_def synchronized_def run_defs)
  note a = empty_diff_creates_nothing [of ?S 7 ?w ?ws ?rs "()" "[PInt 10, PInt 11, PInt 12]"]
  note b = empty_diff_creates_nothing [of ?S 7 ?w ?wc ?rc "()" "[PInt 100, PInt 101]"]
  note a1 = a [THEN conjunct1, rule_format, OF s1]
  note b2 = b [THEN conjunct2, THEN conjunct1, rule_format, OF c1]
  note a3 = a [THEN conjunct2, THEN conjunct2, THEN conjunct1, rule_format, OF s2]
  note b4 = b [THEN conjunct2, THEN conjunct2, THEN conjunct2, rule_format, OF c2]
  from a1 b2 a3 b4 show ?thesis
    by simp
qed

subsection \<open>Creating suites and sections one by one\<close>


lemma length_conversation [simp]: "length (conversation t qs r) = length qs"
  by (induction qs arbitrary: r) (auto split: prod.splits)

lemma mapE_length: "mapE f xs = Inr ys \<Longrightarrow> length ys = length xs"
  by (induction xs arbitrary: ys) (auto split: sum.splits)

lemma first_failure_le: "first_failure answers \<le> length answers"
  by (simp add: first_failure_def length_takeWhile_le)

lemma post_bodies_conversation:
  "post_bodies S p bodies w =
     (let reqs = map (POST p) bodies;
          answers = conversation (send S) reqs (remote w);
          k = first_failure answers
      in ((take k answers, if k < length reqs then error_message (answers ! k) else ''''),
          w\<lparr>remote := remote_after (send S) (take (Suc k) reqs) (remote w),
            trace := trace w @ map Sent (take (Suc k) reqs)\<rparr>))"
proof (induction bodies arbitrary: w)
  case Nil
  show ?case by (simp add: first_failure_def)
next
  case (Cons body bodies)
  obtain a r' where sent: "send S (POST p body) (remote w) = (a, r')"
    by (cases "send S (POST p body) (remote w)")
  show ?case
  proof (cases "error_message a = ''''")
    case False
    with sent show ?thesis
      by (simp add: send_post_def send_request_def emit_def first_failure_def)
  next
    case True
    let ?w1 = "emit (Sent (POST p body)) (w\<lparr>remote := r'\<rparr>)"
    from Cons.IH [of ?w1] sent True show ?thesis
      by (simp add: send_post_def send_request_def Let_def emit_def first_failure_def)
  qed
qed

lemma created_length:
  assumes "mapE f (take (first_failure answers) answers) = Inr created"
  shows "length created = first_failure answers"
  using mapE_length [OF assms] first_failure_le [of answers] by simp

lemma create_run:
  assumes m: "mapE f (take (first_failure (conversation (send S) (map (POST p) bodies) (remote w)))
                 (conversation (send S) (map (POST p) bodies) (remote w))) = Inr created"
  shows "(case post_bodies S p bodies w of
            ((responses, err), w1) \<Rightarrow>
              (case mapE f responses of
                 Inl e \<Rightarrow> (Inl e, w1)
               | Inr returned_resources \<Rightarrow>
                   (Inr (returned_resources, err), update_if_any S keyword returned_resources w1)))
         = (let reqs = map (POST p) bodies;
                answers = conversation (send S) reqs (remote w);
                k = first_failure answers
            in (Inr (created, if k < length reqs then error_message (answers ! k) else ''''),
                w\<lparr>remote := remote_after (send S) (take (Suc k) reqs) (remote w),
                  data_provider :=
                    (if 0 < k then update_data S (keyword created) (data_provider w)
                     else data_provider w),
                  trace := trace w @ map Sent (take (Suc k) reqs) @
                    (if 0 < k then [UpdateData (keyword created)] else [])\<rparr>))"
proof -
  let ?A = "conversation (send S) (map (POST p) bodies) (remote w)"
  have len: "length created = first_failure ?A"
    using created_length [OF m] .
  show ?thesis
    unfolding post_bodies_conversation Let_def
    by (simp add: m update_if_any_def emit_def len)
qed

lemma carried_suite:
  assumes "carries a [(''id'', i), (''name'', n)]"
  shows "suite_resource a = Inr [(''suite_id'', i), (''name'', n)]"
  using assms by (auto simp: carries_def suite_resource_def split: pyval.splits)

lemma carried_section:
  assumes "carries a [(''id'', i), (''suite_id'', s), (''name'', n)]"
  shows "section_resource a = Inr [(''section_id'', i), (''suite_id'', s), (''name'', n)]"
  using assms by (auto simp: carries_def section_resource_def split: pyval.splits)

lemma carried_suites:
  assumes "list_all2 (\<lambda>a s. carries a [(''id'', fst s), (''name'', snd s)]) answers suites"
  shows "mapE suite_resource answers =
           Inr (map (\<lambda>s. [(''suite_id'', fst s), (''name'', snd s)]) suites)"
  using assms by (induction rule: list_all2_induct) (simp_all add: carried_suite)

lemma carried_sections:
  assumes "list_all2 (\<lambda>a s. carries a [(''id'', fst s), (''suite_id'', fst (snd s)),
                                        (''name'', snd (snd s))]) answers sections"
  shows "mapE section_resource answers =
           Inr (map (\<lambda>s. [(''section_id'', fst s), (''suite_id'', fst (snd s)),
                            (''name'', snd (snd s))]) sections)"
  using assms by (induction rule: list_all2_induct) (simp_all add: carried_section)

text \<open>
  Claim C10. \<open>add_suites\<close> and \<open>add_sections\<close> post the bodies one after the other in list
  order. With \<open>k\<close> the position of the first answer that carries an error message (the
  number of bodies, if none does), exactly the first \<open>k + 1\<close> bodies are sent, so nothing
  after the first failure is tried. The \<open>k\<close> answers before it are those of the created
  resources: when their bodies bind \<open>id\<close> and \<open>name\<close> (and \<open>suite_id\<close>, for a section) to
  the identifiers the service has assigned, the resources returned carry exactly these
  identifiers, in the order of the bodies, and, when there is one at least, they are what
  \<open>update_data\<close> receives. The returned error is the message of answer \<open>k\<close>, and empty when
  every body was created.
\<close>

theorem creation_stops_at_first_failure:
  "(reqs = map (POST (''add_suite/{}'', [PInt project_id])) (add_suites_data S (data_provider w)) \<and>
    answers = conversation (send S) reqs (remote w) \<and>
    k = first_failure answers \<and>
    list_all2 (\<lambda>a s. carries a [(''id'', fst s), (''name'', snd s)]) (take k answers) suites \<and>
    created = map (\<lambda>s. [(''suite_id'', fst s), (''name'', snd s)]) suites \<longrightarrow>
    add_suites S project_id w =
      (Inr (created, if k < length reqs then error_message (answers ! k) else ''''),
       w\<lparr>remote := remote_after (send S) (take (Suc k) reqs) (remote w),
         data_provider :=
           (if 0 < k then update_data S (suite_data created) (data_provider w)
            else data_provider w),
         trace := trace w @ map Sent (take (Suc k) reqs) @
           (if 0 < k then [UpdateData (suite_data created)] else [])\<rparr>))
   \<and> (reqs = map (POST (''add_section/{}'', [PInt project_id]))
               (add_sections_data S (data_provider w)) \<and>
    answers = conversation (send S) reqs (remote w) \<and>
    k = first_failure answers \<and>
    list_all2 (\<lambda>a s. carries a [(''id'', fst s), (''suite_id'', fst (snd s)),
                                  (''name'', snd (snd s))]) (take k answers) sections \<and>
    created = map (\<lambda>s. [(''section_id'', fst s), (''suite_id'', fst (snd s)),
                         (''name'', snd (snd s))]) sections \<longrightarrow>
    add_sections S project_id w =
      (Inr (created, if k < length reqs then error_message (answers ! k) else ''''),
       w\<lparr>remote := remote_after (send S) (take (Suc k) reqs) (remote w),
         data_provider :=
           (if 0 < k then update_data S (section_data created) (data_provider w)
            else data_provider w),
         trace := trace w @ map Sent (take (Suc k) reqs) @
           (if 0 < k then [UpdateData (section_data created)] else [])\<rparr>))"
proof (intro conjI impI; elim conjE)
  assume r: "reqs = map (POST (''add_suite/{}'', [PInt project_id]))
                      (add_suites_data S (data_provider w))"
    and a: "answers = conversation (send S) reqs (remote w)"
    and k: "k = first_failure answers"
    and shape: "list_all2 (\<lambda>a s. carries a [(''id'', fst s), (''name'', snd s)])
                  (take k answers) suites"
    and c: "created = map (\<lambda>s. [(''suite_id'', fst s), (''name'', snd s)]) suites"
  have m: "mapE suite_resource (take k answers) = Inr created"
    unfolding c by (rule carried_suites [OF shape])
  from r a k m show "add_suites S project_id w =
      (Inr (created, if k < length reqs then error_message (answers ! k) else ''''),
       w\<lparr>remote := remote_after (send S) (take (Suc k) reqs) (remote w),
         data_provider :=
           (if 0 < k then update_data S (suite_data created) (data_provider w)
            else data_provider w),
         trace := trace w @ map Sent (take (Suc k) reqs) @
           (if 0 < k then [UpdateData (suite_data created)] else [])\<rparr>)"
    unfolding add_suites_def
    using create_run [of suite_resource S "(''add_suite/{}'', [PInt project_id])"
            "add_suites_data S (data_provider w)" w created suite_data]
    by (simp only: Let_def)
next
  assume r: "reqs = map (POST (''add_section/{}'', [PInt project_id]))
               (add_sections_data S (data_provider w))"
    and a: "answers = conversation (send S) reqs (remote w)"
    and k: "k = first_failure answers"
    and shape: "list_all2 (\<lambda>a s. carries a [(''id'', fst s), (''suite_id'', fst (snd s)),
                                  (''name'', snd (snd s))]) (take k answers) sections"
    and c: "created = map (\<lambda>s. [(''section_id'', fst s), (''suite_id'', fst (snd s)),
                         (''name'', snd (snd s))]) sections"
  have m: "mapE section_resource (take k answers) = Inr created"
    unfolding c by (rule carried_sections [OF shape])
  from r a k m show "add_sections S project_id w =
      (Inr (created, if k < length reqs then error_message (answers ! k) else ''''),
       w\<lparr>remote := remote_after (send S) (take (Suc k) reqs) (remote w),
         data_provider :=
           (if 0 < k then update_data S (section_data created) (data_provider w)
            else data_provider w),
         trace := trace w @ map Sent (take (Suc k) reqs) @
           (if 0 < k then [UpdateData (section_data created)] else [])\<rparr>)"
    unfolding add_sections_def
    using create_run [of section_resource S "(''add_section/{}'', [PInt project_id])"
            "add_sections_data S (data_provider w)" w created section_data]
    by (simp only: Let_def)
qed

theorem creation_stops_at_first_failure_witness:
  "add_suites (example_setting refuses_B no_pool) 7 (start None) =
     (Inr ([[(''suite_id'', PInt 1), (''name'', PStr ''Smoke'')]], ''''),
      \<lparr>remote = (), data_provider = None,
       trace = [Sent (POST (''add_suite/{}'', [PInt 7]) (PDict [(''name'', PStr ''Smoke'')])),
                UpdateData (suite_data [[(''suite_id'', PInt 1), (''name'', PStr ''Smoke'')]])]\<rparr>)
   \<and> add_sections (example_setting refuses_B no_pool) 7 (start (Some 1)) =
     (Inr ([[(''section_id'', PInt 10), (''suite_id'', PInt 1), (''name'', PStr ''A'')]],
           ''Field :name is too long.''),
      \<lparr>remote = (), data_provider = Some 1,
       trace = [Sent (POST (''add_section/{}'', [PInt 7]) (PDict [(''name'', PStr ''A'')])),
                Sent (POST (''add_section/{}'', [PInt 7]) (PDict [(''name'', PStr ''B'')])),
                UpdateData (section_data
                  [[(''section_id'', PInt 10), (''suite_id'', PInt 1),
                    (''name'', PStr ''A'')]])]\<rparr>)"
proof -
  let ?S = "example_setting refuses_B no_pool"
  let ?suite_reqs = "[POST (''add_suite/{}'', [PInt 7]) (PDict [(''name'', PStr ''Smoke'')])]"
  let ?suite_answers = "[answer (PDict [(''id'', PInt 1), (''name'', PStr ''Smoke'')])]"
  let ?suites = "[(PInt 1, PStr ''Smoke'')]"
  let ?suite_resources = "[[(''suite_id'', PInt 1), (''name'', PStr ''Smoke'')]]"
  let ?section_reqs =
    "[POST (''add_section/{}'', [PInt 7]) (PDict [(''name'', PStr ''A'')]),
      POST (''add_section/{}'', [PInt 7]) (PDict [(''name'', PStr ''B'')]),
      POST (''add_section/{}'', [PInt 7]) (PDict [(''name'', PStr ''C'')])]"
  let ?section_answers =
    "[answer (PDict [(''id'', PInt 10), (''suite_id'', PInt 1), (''name'', PStr ''A'')]),
      failure (PDict [(''error'', PStr ''Field :name is too long.'')]) ''Field :name is too long.'',
      answer PNone]"
  let ?sections = "[(PInt 10, PInt 1, PStr ''A'')]"
  let ?section_resources =
    "[[(''section_id'', PInt 10), (''suite_id'', PInt 1), (''name'', PStr ''A'')]]"
  have suites:
    "?suite_reqs = map (POST (''add_suite/{}'', [PInt 7]))
                     (add_suites_data ?S (data_provider (start None))) \<and>
     ?suite_answers = conversation (send ?S) ?suite_reqs (remote (start None)) \<and>
     (1::nat) = first_failure ?suite_answers \<and>
     list_all2 (\<lambda>a s. carries a [(''id'', fst s), (''name'', snd s)])
       (take 1 ?suite_answers) ?suites \<and>
     ?suite_resources = map (\<lambda>s. [(''suite_id'', fst s), (''name'', snd s)]) ?suites"
    by (simp add: example_setting_def refuses_B_def first_failure_def carries_def answer_def)
  have sections:
    "?section_reqs = map (POST (''add_section/{}'', [PInt 7]))
                       (add_sections_data ?S (data_provider (start (Some 1)))) \<and>
     ?section_answers = conversation (send ?S) ?section_reqs (remote (start (Some 1))) \<and>
     (1::nat) = first_failure ?section_answers \<and>
     list_all2 (\<lambda>a s. carries a [(''id'', fst s), (''suite_id'', fst (snd s)),
                                   (''name'', snd (snd s))])
       (take 1 ?section_answers) ?sections \<and>
     ?section_resources =
       map (\<lambda>s. [(''section_id'', fst s), (''suite_id'', fst (snd s)),
                  (''name'', snd (snd s))]) ?sections"
    by (simp add: example_setting_def refuses_B_def first_failure_def carries_def answer_def
          failure_def)
  note a = creation_stops_at_first_failure
             [where reqs = ?suite_reqs and project_id = 7 and S = ?S and w = "start None"
                and answers = ?suite_answers and k = 1 and suites = ?suites
                and created = ?suite_resources,
              THEN conjunct1, rule_format, OF suites]
  note b = creation_stops_at_first_failure
             [where reqs = ?section_reqs and project_id = 7 and S = ?S
                and w = "start (Some 1)" and answers = ?section_answers and k = 1
                and sections = ?sections and created = ?section_resources,
              THEN conjunct2, rule_format, OF sections]
  from a b show ?thesis
    by (simp add: example_setting_def start_def failure_def)
qed

subsection \<open>Batches\<close>


lemmas batch_defs = add_cases_def add_results_def handle_futures_def submit_all_def
  ApiRequestHandler_cancel_running_futures_def cancel_def shutdown_def
  retrieve_results_after_cancelling_def case_request_def case_resource_def
  second_unit_fails_def interrupted_after_first_def unit_of_def bad_request_def
  created_case_def stored_results_def

text \<open>
  Claim C1. When unit \<open>k\<close> of a batch is the first to fail, the completed set that is
  returned should leave out the failed unit, hold every unit that had finished, and hold
  no unit that was cancelled in the queue. The code does leave out the cancelled unit, but
  \<open>retrieve_results_after_cancelling\<close> takes the result of every future that was not
  cancelled, whatever its error message: with three chunks of results, of which the first
  succeeds, the second fails and the third is still queued, \<open>add_results\<close> returns the
  body of the failed answer beside that of the first.
\<close>

theorem failed_unit_among_completed:
  "add_results (example_setting unreachable (second_unit_fails stored_results)) (PInt 5)
     (start (Some 1)) =
     (Inr ([PList [PDict [(''id'', PInt 1)], PDict [(''id'', PInt 2)]],
            PDict [(''error'', PStr ''Field :title is a required field.'')]],
           ''Field :title is a required field.''),
      \<lparr>remote = (), data_provider = Some 1,
       trace =
         [ProgressOpen 4 ''Adding results'',
          Submitted
            [POST (''add_results_for_cases/{}'', [PInt 5])
               (PDict [(''results'', PList [PInt 1, PInt 2])]),
             POST (''add_results_for_cases/{}'', [PInt 5])
               (PDict [(''results'', PList [PInt 3])]),
             POST (''add_results_for_cases/{}'', [PInt 5])
               (PDict [(''results'', PList [PInt 4])])],
          ProgressUpdate 2,
          Log (Text ([CHR 0x0A] @ ''Error during add_results. Trying to cancel scheduled tasks.'')),
          Log (Text ([CHR 0x0A] @ ''Aborting: add_results. Trying to cancel scheduled tasks.''))]\<rparr>)"
  by (simp add: batch_defs run_defs Let_def)

text \<open>
  Claim C5. When a batch of cases ends with an error, the resources of the units that
  completed should still be given to \<open>update_data\<close> before \<open>add_cases\<close> returns. In the
  code the salvaged answers include the failed one, whose body has no \<open>id\<close>: building the
  resources raises \<open>KeyError\<close>, \<open>add_cases\<close> does not return, and \<open>update_data\<close> is not
  called, although the first case was created.
\<close>

theorem failed_batch_of_cases_merges_nothing:
  "add_cases (example_setting unreachable (second_unit_fails created_case)) (start (Some 1)) =
     (Inl KeyError,
      \<lparr>remote = (), data_provider = Some 1,
       trace =
         [ProgressOpen 3 ''Adding test cases'',
          Submitted
            [POST (''add_case/{}'', [PInt 10]) (PDict [(''title'', PStr ''t1'')]),
             POST (''add_case/{}'', [PInt 10]) (PDict [(''title'', PStr ''t2'')]),
             POST (''add_case/{}'', [PInt 11]) (PDict [(''title'', PStr ''t3'')])],
          ProgressUpdate 1,
          Log (Text ([CHR 0x0A] @ ''Error during add_case. Trying to cancel scheduled tasks.'')),
          Log (Text ([CHR 0x0A] @ ''Aborting: add_case. Trying to cancel scheduled tasks.''))]\<rparr>)"
  by (simp add: batch_defs run_defs Let_def)

text \<open>
  Claim C9, as stated, fails: it says that after a \<open>KeyboardInterrupt\<close> the results of the
  units that have finished are still collected. Here the first case has been created when
  the interrupt arrives; \<open>add_cases\<close> ends by the interrupt, returns no resource and does
  not call \<open>update_data\<close>.
\<close>

theorem interrupt_discards_finished_unit:
  "add_cases (example_setting unreachable (interrupted_after_first created_case))
     (start (Some 1)) =
     (Inl KeyboardInterrupt,
      \<lparr>remote = (), data_provider = Some 1,
       trace =
         [ProgressOpen 3 ''Adding test cases'',
          Submitted
            [POST (''add_case/{}'', [PInt 10]) (PDict [(''title'', PStr ''t1'')]),
             POST (''add_case/{}'', [PInt 10]) (PDict [(''title'', PStr ''t2'')]),
             POST (''add_case/{}'', [PInt 11]) (PDict [(''title'', PStr ''t3'')])],
          ProgressUpdate 1,
          Log (Text ([CHR 0x0A] @ ''Aborting: add_case. Trying to cancel scheduled tasks.''))]\<rparr>)"
  by (simp add: batch_defs run_defs Let_def)

lemma drain_interrupt:
  assumes "k < length pending"
      and "\<forall>f \<in> set (take k pending). error_message (result f) = ''''"
      and "mapE (progress_weight action_string) (take k pending) = Inr ns"
  shows "drain action_string (Some k) yielded pending responses w =
           ((Inl KeyboardInterrupt,
             map cancel (yielded @ map finished (take k pending) @ drop k pending)),
            w\<lparr>trace := trace w @ map ProgressUpdate ns @ [aborting action_string]\<rparr>)"
  using assms
proof (induction k arbitrary: pending yielded responses w ns)
  case 0
  then obtain f fs where "pending = f # fs"
    by (cases pending) auto
  with 0 show ?case
    by (simp add: ApiRequestHandler_cancel_running_futures_def log_def emit_def aborting_def)
next
  case (Suc k)
  then obtain f fs where p: "pending = f # fs"
    by (cases pending) auto
  with Suc.prems have ok: "error_message (result f) = ''''"
    and len: "k < length fs"
    and rest: "\<forall>g \<in> set (take k fs). error_message (result g) = ''''"
    by auto
  from Suc.prems(3) p obtain n ms where n: "progress_weight action_string f = Inr n"
    and ms: "mapE (progress_weight action_string) (take k fs) = Inr ms"
    and ns: "ns = n # ms"
    by (auto split: sum.splits)
  have step: "drain action_string (Some (Suc k)) yielded (f # fs) responses w =
          drain action_string (Some k) (yielded @ [finished f]) fs (responses @ [result f])
            (emit (ProgressUpdate n) w)"
    using ok n by (auto simp: progress_weight_def finished_def Let_def split: if_splits)
  show ?case
    unfolding p step
    by (simp add: Suc.IH [OF len rest ms] ns emit_def)
qed

lemma case_weights:
  "mapE (progress_weight ''add_case'') fs = Inr (replicate (length fs) 1)"
  by (induction fs) (simp_all add: progress_weight_def)

text \<open>
  Claim C9, amended. When a \<open>KeyboardInterrupt\<close> arrives while the completions are drained,
  after \<open>k\<close> units that all succeeded, \<open>handle_futures\<close> asks every future to cancel (a
  queued one becomes cancelled, a running or finished one is left) and raises
  \<open>KeyboardInterrupt\<close> again. \<open>add_cases\<close> and \<open>add_results\<close> end by that interrupt: beyond the
  progress of the \<open>k\<close> units and the abort line nothing is done, no result is returned and
  the data provider is not updated.
\<close>

theorem interrupt_cancels_and_is_reraised:
  "(k < length futures \<and>
    (\<forall>f \<in> set (take k futures). error_message (result f) = '''') \<and>
    mapE (progress_weight action_string) (take k futures) = Inr ns \<longrightarrow>
    handle_futures futures (Some k) action_string w =
      ((Inl KeyboardInterrupt, map cancel (map finished (take k futures) @ drop k futures)),
       w\<lparr>trace := trace w @ map ProgressUpdate ns @ [aborting action_string]\<rparr>))
   \<and> (build_requests case_request (add_cases_data S (data_provider w)) = (reqs, None) \<and>
    executor S reqs (remote w) = ((futures, Some k), r') \<and>
    k < length futures \<and>
    (\<forall>f \<in> set (take k futures). error_message (result f) = '''') \<longrightarrow>
    add_cases S w =
      (Inl KeyboardInterrupt,
       w\<lparr>remote := r',
         trace := trace w @
           [ProgressOpen (int (length (add_cases_data S (data_provider w)))) ''Adding test cases'',
            Submitted reqs] @
           replicate k (ProgressUpdate 1) @ [aborting ''add_case'']\<rparr>))
   \<and> (mapE (\<lambda>results. bindE (getitem results ''results'') py_len)
         (add_results_for_cases S (batch_size S) (data_provider w)) = Inr lens \<and>
    reqs = map (POST (''add_results_for_cases/{}'', [run_id]))
             (add_results_for_cases S (batch_size S) (data_provider w)) \<and>
    executor S reqs (remote w) = ((futures, Some k), r') \<and>
    k < length futures \<and>
    (\<forall>f \<in> set (take k futures). error_message (result f) = '''') \<and>
    mapE (progress_weight ''add_results'') (take k futures) = Inr ns \<longrightarrow>
    add_results S run_id w =
      (Inl KeyboardInterrupt,
       w\<lparr>remote := r',
         trace := trace w @ [ProgressOpen (sum_list lens) ''Adding results'', Submitted reqs] @
           map ProgressUpdate ns @ [aborting ''add_results'']\<rparr>))"
proof (intro conjI impI; elim conjE)
  assume "k < length futures"
    and "\<forall>f \<in> set (take k futures). error_message (result f) = ''''"
    and "mapE (progress_weight action_string) (take k futures) = Inr ns"
  then show "handle_futures futures (Some k) action_string w =
      ((Inl KeyboardInterrupt, map cancel (map finished (take k futures) @ drop k futures)),
       w\<lparr>trace := trace w @ map ProgressUpdate ns @ [aborting action_string]\<rparr>)"
    by (simp add: handle_futures_def drain_interrupt)
next
  assume b: "build_requests case_request (add_cases_data S (data_provider w)) = (reqs, None)"
    and e: "executor S reqs (remote w) = ((futures, Some k), r')"
    and k: "k < length futures"
    and ok: "\<forall>f \<in> set (take k futures). error_message (result f) = ''''"
  have ws: "mapE (progress_weight ''add_case'') (take k futures) = Inr (replicate k 1)"
    using case_weights [of "take k futures"] k by simp
  show "add_cases S w =
      (Inl KeyboardInterrupt,
       w\<lparr>remote := r',
         trace := trace w @
           [ProgressOpen (int (length (add_cases_data S (data_provider w)))) ''Adding test cases'',
            Submitted reqs] @
           replicate k (ProgressUpdate 1) @ [aborting ''add_case'']\<rparr>)"
    using b e
    by (simp add: add_cases_def Let_def submit_all_def emit_def handle_futures_def
          drain_interrupt [OF k ok ws])
next
  assume l: "mapE (\<lambda>results. bindE (getitem results ''results'') py_len)
         (add_results_for_cases S (batch_size S) (data_provider w)) = Inr lens"
    and r: "reqs = map (POST (''add_results_for_cases/{}'', [run_id]))
             (add_results_for_cases S (batch_size S) (data_provider w))"
    and e: "executor S reqs (remote w) = ((futures, Some k), r')"
    and k: "k < length futures"
    and ok: "\<forall>f \<in> set (take k futures). error_message (result f) = ''''"
    and ws: "mapE (progress_weight ''add_results'') (take k futures) = Inr ns"
  show "add_results S run_id w =
      (Inl KeyboardInterrupt,
       w\<lparr>remote := r',
         trace := trace w @ [ProgressOpen (sum_list lens) ''Adding results'', Submitted reqs] @
           map ProgressUpdate ns @ [aborting ''add_results'']\<rparr>)"
    using l e [unfolded r]
    by (simp add: add_results_def Let_def submit_all_def emit_def handle_futures_def r
          drain_interrupt [OF k ok ws])
qed

text \<open>
  The amended claim C9 at a batch of three units, interrupted after the first.
\<close>

theorem interrupt_cancels_and_is_reraised_witness:
  "handle_futures
     [\<lparr>arguments = PDict [(''title'', PStr ''t1'')], result = created_case, state = Finished\<rparr>,
      \<lparr>arguments = PDict [(''title'', PStr ''t2'')], result = created_case, state = Running\<rparr>,
      \<lparr>arguments = PDict [(''title'', PStr ''t3'')], result = created_case, state = Queued\<rparr>]
     (Some 1) ''add_case'' (start None) =
     ((Inl KeyboardInterrupt,
       [\<lparr>arguments = PDict [(''title'', PStr ''t1'')], result = created_case, state = Finished\<rparr>,
        \<lparr>arguments = PDict [(''title'', PStr ''t2'')], result = created_case, state = Running\<rparr>,
        \<lparr>arguments = PDict [(''title'', PStr ''t3'')], result = created_case,
         state = Cancelled\<rparr>]),
      \<lparr>remote = (), data_provider = None,
       trace = [ProgressUpdate 1, aborting ''add_case'']\<rparr>)
   \<and> fst (add_cases (example_setting unreachable (interrupted_after_first created_case))
            (start (Some 1))) = Inl KeyboardInterrupt
   \<and> add_results (example_setting unreachable (interrupted_after_first stored_results)) (PInt 5)
       (start (Some 1)) =
     (Inl KeyboardInterrupt,
      \<lparr>remote = (), data_provider = Some 1,
       trace =
         [ProgressOpen 4 ''Adding results'',
          Submitted
            [POST (''add_results_for_cases/{}'', [PInt 5])
               (PDict [(''results'', PList [PInt 1, PInt 2])]),
             POST (''add_results_for_cases/{}'', [PInt 5])
               (PDict [(''results'', PList [PInt 3])]),
             POST (''add_results_for_cases/{}'', [PInt 5])
               (PDict [(''results'', PList [PInt 4])])],
          ProgressUpdate 2, aborting ''add_results'']\<rparr>)"
proof -
  let ?fs = "[\<lparr>arguments = PDict [(''title'', PStr ''t1'')], result = created_case, state = Finished\<rparr>,
      \<lparr>arguments = PDict [(''title'', PStr ''t2'')], result = created_case, state = Running\<rparr>,
      \<lparr>arguments = PDict [(''title'', PStr ''t3'')], result = created_case, state = Queued\<rparr>]"
  let ?C = "example_setting unreachable (interrupted_after_first created_case)"
  let ?R = "example_setting unreachable (interrupted_after_first stored_results)"
  let ?w = "start (Some 1)"
  let ?creqs = "[POST (''add_case/{}'', [PInt 10]) (PDict [(''title'', PStr ''t1'')]),
                 POST (''add_case/{}'', [PInt 10]) (PDict [(''title'', PStr ''t2'')]),
                 POST (''add_case/{}'', [PInt 11]) (PDict [(''title'', PStr ''t3'')])]"
  let ?rreqs = "[POST (''add_results_for_cases/{}'', [PInt 5])
                   (PDict [(''results'', PList [PInt 1, PInt 2])]),
                 POST (''add_results_for_cases/{}'', [PInt 5])
                   (PDict [(''results'', PList [PInt 3])]),
                 POST (''add_results_for_cases/{}'', [PInt 5])
                   (PDict [(''results'', PList [PInt 4])])]"
  let ?rfs = "[\<lparr>arguments = PDict [(''results'', PList [PInt 1, PInt 2])],
                result = stored_results, state = Finished\<rparr>,
               \<lparr>arguments = PDict [(''results'', PList [PInt 3])],
                result = stored_results, state = Running\<rparr>,
               \<lparr>arguments = PDict [(''results'', PList [PInt 4])],
                result = stored_results, state = Queued\<rparr>]"
  have h1: "1 < length ?fs \<and>
    (\<forall>f \<in> set (take 1 ?fs). error_message (result f) = '''') \<and>
    mapE (progress_weight ''add_case'') (take 1 ?fs) = Inr [1]"
    by (simp add: progress_weight_def created_case_def answer_def)
  have h2: "build_requests case_request (add_cases_data ?C (data_provider ?w)) = (?creqs, None) \<and>
    executor ?C ?creqs (remote ?w) = ((?fs, Some 1), ()) \<and>
    1 < length ?fs \<and>
    (\<forall>f \<in> set (take 1 ?fs). error_message (result f) = '''')"
    by (simp add: example_setting_def case_request_def interrupted_after_first_def unit_of_def
          created_case_def answer_def)
  have h3: "mapE (\<lambda>results. bindE (getitem results ''results'') py_len)
         (add_results_for_cases ?R (batch_size ?R) (data_provider ?w)) = Inr [2, 1, 1] \<and>
    ?rreqs = map (POST (''add_results_for_cases/{}'', [PInt 5]))
             (add_results_for_cases ?R (batch_size ?R) (data_provider ?w)) \<and>
    executor ?R ?rreqs (remote ?w) = ((?rfs, Some 1), ()) \<and>
    1 < length ?rfs \<and>
    (\<forall>f \<in> set (take 1 ?rfs). error_message (result f) = '''') \<and>
    mapE (progress_weight ''add_results'') (take 1 ?rfs) = Inr [2]"
    by (simp add: example_setting_def interrupted_after_first_def unit_of_def
          stored_results_def answer_def progress_weight_def)
  note a = interrupt_cancels_and_is_reraised
             [of 1 ?fs "''add_case''" "[1]" "start None", THEN conjunct1, rule_format, OF h1]
  note b = interrupt_cancels_and_is_reraised
             [of 1 ?fs _ _ ?w ?C ?creqs "()", THEN conjunct2, THEN conjunct1, rule_format, OF h2]
  note c = interrupt_cancels_and_is_reraised
             [of 1 ?rfs _ "[2]" ?w ?R ?rreqs "()" "[2, 1, 1]" "PInt 5",
              THEN conjunct2, THEN conjunct2, rule_format, OF h3]
  from a b c show ?thesis
    by (simp add: start_def cancel_def finished_def)
qed

subsection \<open>The two defects, for every run\<close>

text \<open>
  Whatever \<open>check_suite_id\<close> returns, the test made on its pair succeeds: when the handler
  returns at all, the uploader accepts the suite id and logs nothing.
\<close>

lemma pinned_suite_check_never_fails:
  assumes "check_suite_id S project_id w = (Inr checked, w1)"
  shows "ResultsUploader_check_suite_id S suite_id project_id w =
           (Inr (of_optional suite_id, 1), w1)"
  using assms by (simp add: ResultsUploader_check_suite_id_def pair_is_true_def)

text \<open>
  Whenever the draining loop stops on an answer with an error message, that answer is
  among those the salvage pass takes from the futures, for every order of completion and
  every state of the other futures.
\<close>

lemma drain_error_is_salvaged:
  assumes "drain action_string interrupt yielded pending responses w =
             ((Inr (rs, err), futures), w')"
      and "err \<noteq> ''''"
  shows "\<exists>r \<in> set (retrieve_results_after_cancelling S (shutdown futures)).
           error_message r = err"
  using assms
proof (induction pending arbitrary: interrupt yielded responses w)
  case Nil
  then show ?case by simp
next
  case (Cons f pending)
  show ?case
  proof (cases "interrupt = Some 0")
    case True
    with Cons.prems show ?thesis
      by (simp add: ApiRequestHandler_cancel_running_futures_def)
  next
    case False
    show ?thesis
    proof (cases "error_message (result f) = ''''")
      case True
      with False Cons.prems Cons.IH show ?thesis
        by (auto simp: Let_def split: if_splits sum.splits)
    next
      case bad: False
      with False Cons.prems
      have "futures = map cancel (yielded @ f\<lparr>state := Finished\<rparr> # pending)"
        and "err = error_message (result f)"
        by (auto simp: Let_def ApiRequestHandler_cancel_running_futures_def)
      then show ?thesis
        by (auto simp: retrieve_results_after_cancelling_def shutdown_def cancel_def
              intro!: bexI [of _ "f\<lparr>state := Finished\<rparr>"])
    qed
  qed
qed

end
